theory Spec2Isabelle
  imports Complex_Main "HOL-Library.Monad_Syntax"
begin

section \<open>JavaScript values and the operations script.js applies to them\<close>

text \<open>
  script.js shapes JSON bodies of two remote services into book objects, without checking
  the type of any member it reads. The model therefore keeps JavaScript's dynamic values:
  a field of a remote document, and a field of a book built from it, is a \<open>jsval\<close>.

  \<^item> A number is an integer (identifiers, years and page counts are; fractions are
    outside the model). The text of a number is its decimal digits, as the runtime prints
    an integer of up to \<open>2^53 - 1\<close> in absolute value; a property that depends on the text of
    a number is stated for numbers of that range.
  \<^item> A string is a list of 8-bit characters. ASCII text is modelled exactly. Other text
    stands as its UTF-8 bytes: searching, replacing, trimming and URL encoding act on it
    as on the text itself, while \<open>slice\<close> and \<open>[0]\<close> on a string count bytes, which
    approximates JavaScript there.
  \<^item> \<open>String.prototype.toLowerCase\<close> follows the case tables of the runtime, which are no
    part of script.js. An operation that calls it takes the mapping as its first
    parameter, named \<open>toLowerCase\<close>, and what is proved of the operation is proved for
    every mapping.
  \<^item> An object lists its members under the names that script.js reads somewhere
    (\<open>field\<close>), each name once. Members under other names are never read by the program
    text. A member named \<open>length\<close>, \<open>map\<close>, \<open>slice\<close>, \<open>join\<close>, \<open>toString\<close> or \<open>0\<close>, which would
    let an object stand in for an array, has no name in \<open>field\<close> and is outside the model.
  \<^item> A computation that may throw returns an \<open>option\<close>; \<open>None\<close> is the throw. Every
    handler in script.js is a bare \<open>catch\<close> that ignores which error it got.
\<close>

datatype field =
    Docs | Key | Title | Author_name | First_publish_year | Description | Subject
  | Cover_i | Number_of_pages_median | Isbn
  | Value | Authors | Author | First_publish_date | Subjects | Covers | Number_of_pages
  | First_sentence | Links | Excerpts | Excerpt
  | Name | Bio | Birth_date
  | Candidates | Content | Parts | Text

datatype jsval =
    Undefined
  | Null
  | Bool bool
  | Num int
  | Str string
  | Arr "jsval list"
  | Obj "(field \<times> jsval) list"

text \<open>Truthiness, as \<open>if (v)\<close>, \<open>v ? a : b\<close>, \<open>v && w\<close> and \<open>v || w\<close> test it.\<close>

fun truthy :: "jsval \<Rightarrow> bool" where
  "truthy Undefined = False"
| "truthy Null = False"
| "truthy (Bool b) = b"
| "truthy (Num n) = (n \<noteq> 0)"
| "truthy (Str s) = (s \<noteq> [])"
| "truthy (Arr xs) = True"
| "truthy (Obj kvs) = True"

text \<open>\<open>a || b\<close>\<close>

definition or_js :: "jsval \<Rightarrow> jsval \<Rightarrow> jsval" where
  "or_js a b = (if truthy a then a else b)"

text \<open>
  \<open>v.name\<close> for a member name of \<open>field\<close>: a TypeError on \<open>undefined\<close> and \<open>null\<close>, the
  member or \<open>undefined\<close> on an object, \<open>undefined\<close> on a primitive or an array (none of the
  names is a property of String, Number, Boolean or Array).
\<close>

fun get :: "jsval \<Rightarrow> field \<Rightarrow> jsval option" where
  "get Undefined k = None"
| "get Null k = None"
| "get (Obj kvs) k = Some (case map_of kvs k of None \<Rightarrow> Undefined | Some v \<Rightarrow> v)"
| "get v k = Some Undefined"

text \<open>
  \<open>v.length > 0\<close>: the length of an array or a string; on a number, a boolean or an object
  \<open>v.length\<close> is \<open>undefined\<close> and the comparison is false.
\<close>

fun length_positive :: "jsval \<Rightarrow> bool option" where
  "length_positive Undefined = None"
| "length_positive Null = None"
| "length_positive (Arr xs) = Some (xs \<noteq> [])"
| "length_positive (Str s) = Some (s \<noteq> [])"
| "length_positive v = Some False"

text \<open>\<open>v.slice(0, n)\<close>: arrays and strings have the method; calling it elsewhere throws.\<close>

fun slice0 :: "nat \<Rightarrow> jsval \<Rightarrow> jsval option" where
  "slice0 n (Arr xs) = Some (Arr (take n xs))"
| "slice0 n (Str s) = Some (Str (take n s))"
| "slice0 n v = None"

text \<open>\<open>v[0]\<close>\<close>

fun index0 :: "jsval \<Rightarrow> jsval option" where
  "index0 Undefined = None"
| "index0 Null = None"
| "index0 (Arr xs) = Some (case xs of [] \<Rightarrow> Undefined | x # _ \<Rightarrow> x)"
| "index0 (Str s) = Some (case s of [] \<Rightarrow> Undefined | c # _ \<Rightarrow> Str [c])"
| "index0 v = Some Undefined"

subsection \<open>Conversion to string\<close>

definition digit_char :: "nat \<Rightarrow> char" where
  "digit_char d = ''0123456789'' ! d"

fun show_nat :: "nat \<Rightarrow> string" where
  "show_nat n = (if n < 10 then [digit_char n] else show_nat (n div 10) @ [digit_char (n mod 10)])"

declare show_nat.simps [simp del]

definition show_int :: "int \<Rightarrow> string" where
  "show_int i = (if i < 0 then CHR ''-'' # show_nat (nat (- i)) else show_nat (nat i))"

text \<open>\<open>Array.prototype.join\<close> on the strings of the elements.\<close>

fun intercalate :: "string \<Rightarrow> string list \<Rightarrow> string" where
  "intercalate sep [] = []"
| "intercalate sep [s] = s"
| "intercalate sep (s # t # ts) = s @ sep @ intercalate sep (t # ts)"

text \<open>
  The string a template literal \<open>`${v}`\<close> substitutes. Inside an array, \<open>undefined\<close> and
  \<open>null\<close> elements give the empty string.
\<close>

fun toString :: "jsval \<Rightarrow> string" where
  "toString Undefined = ''undefined''"
| "toString Null = ''null''"
| "toString (Bool b) = (if b then ''true'' else ''false'')"
| "toString (Num n) = show_int n"
| "toString (Str s) = s"
| "toString (Arr xs) =
     intercalate '','' (map (\<lambda>x. if x = Undefined \<or> x = Null then [] else toString x) xs)"
| "toString (Obj kvs) = ''[object Object]''"

text \<open>\<open>v.join(sep)\<close>: only arrays have the method.\<close>

fun join :: "string \<Rightarrow> jsval \<Rightarrow> string option" where
  "join sep (Arr xs) =
     Some (intercalate sep (map (\<lambda>x. if x = Undefined \<or> x = Null then [] else toString x) xs))"
| "join sep v = None"

subsection \<open>String methods\<close>

text \<open>The type of \<open>String.prototype.toLowerCase\<close>, from the receiver to the result.\<close>

type_synonym case_mapping = "string \<Rightarrow> string"

text \<open>\<open>s.includes(t)\<close>: \<open>t\<close> occurs in \<open>s\<close> as a contiguous run.\<close>

fun includes_str :: "string \<Rightarrow> string \<Rightarrow> bool" where
  "includes_str [] t = (t = [])"
| "includes_str (c # s) t = (take (length t) (c # s) = t \<or> includes_str s t)"

text \<open>\<open>s.replace(pat, rep)\<close> with a string pattern: the first occurrence only.\<close>

fun replace :: "string \<Rightarrow> string \<Rightarrow> string \<Rightarrow> string" where
  "replace [] pat rep = (if pat = [] then rep else [])"
| "replace (c # s) pat rep =
     (if take (length pat) (c # s) = pat then rep @ drop (length pat) (c # s)
      else c # replace s pat rep)"

text \<open>
  The white space and the line terminators of the language, each as its UTF-8 bytes:
  U+0009 to U+000D, U+0020, U+00A0, U+1680, U+2000 to U+200A, U+2028, U+2029, U+202F,
  U+205F, U+3000 and U+FEFF.
\<close>

definition white_space :: "string list" where
  "white_space =
     [[CHR 0x09], [CHR 0x0A], [CHR 0x0B], [CHR 0x0C], [CHR 0x0D], [CHR 0x20],
      [CHR 0xC2, CHR 0xA0],
      [CHR 0xE1, CHR 0x9A, CHR 0x80],
      [CHR 0xE2, CHR 0x80, CHR 0x80], [CHR 0xE2, CHR 0x80, CHR 0x81],
      [CHR 0xE2, CHR 0x80, CHR 0x82], [CHR 0xE2, CHR 0x80, CHR 0x83],
      [CHR 0xE2, CHR 0x80, CHR 0x84], [CHR 0xE2, CHR 0x80, CHR 0x85],
      [CHR 0xE2, CHR 0x80, CHR 0x86], [CHR 0xE2, CHR 0x80, CHR 0x87],
      [CHR 0xE2, CHR 0x80, CHR 0x88], [CHR 0xE2, CHR 0x80, CHR 0x89],
      [CHR 0xE2, CHR 0x80, CHR 0x8A],
      [CHR 0xE2, CHR 0x80, CHR 0xA8], [CHR 0xE2, CHR 0x80, CHR 0xA9],
      [CHR 0xE2, CHR 0x80, CHR 0xAF],
      [CHR 0xE2, CHR 0x81, CHR 0x9F],
      [CHR 0xE3, CHR 0x80, CHR 0x80],
      [CHR 0xEF, CHR 0xBB, CHR 0xBF]]"

text \<open>As long as the text starts with one of the sequences \<open>ws\<close>, take that sequence off.\<close>

function strip :: "string list \<Rightarrow> string \<Rightarrow> string" where
  "strip ws s =
     (case find (\<lambda>w. w \<noteq> [] \<and> take (length w) s = w) ws of
        Some w \<Rightarrow> strip ws (drop (length w) s)
      | None \<Rightarrow> s)"
  by pat_completeness auto

termination
proof (relation "measure (\<lambda>(ws, s). length s)")
  fix ws :: "string list" and s w :: string
  assume "find (\<lambda>w. w \<noteq> [] \<and> take (length w) s = w) ws = Some w"
  then have "w \<noteq> []" and "take (length w) s = w"
    by (auto simp: find_Some_iff)
  then have "0 < length w" and "length w \<le> length s"
    by (auto simp: min_def dest: arg_cong [where f = length] split: if_splits)
  then have "length s - length w < length s"
    by arith
  then show "((ws, drop (length w) s), (ws, s)) \<in> measure (\<lambda>(ws, s). length s)"
    by simp
qed simp

declare strip.simps [simp del]

text \<open>\<open>s.trim()\<close>: the white space at the end of the text goes, then that at its start.\<close>

definition trim :: "string \<Rightarrow> string" where
  "trim s = strip white_space (rev (strip (map rev white_space) (rev s)))"

definition hex_digit :: "nat \<Rightarrow> char" where
  "hex_digit d = ''0123456789ABCDEF'' ! d"

definition unreserved :: "char \<Rightarrow> bool" where
  "unreserved c =
     (c \<in> set (''ABCDEFGHIJKLMNOPQRSTUVWXYZ'' @ ''abcdefghijklmnopqrstuvwxyz''
               @ ''0123456789'' @ ''-_.!~*'()''))"

text \<open>
  \<open>encodeURIComponent\<close>: letters, digits and \<open>- _ . ! ~ * ' ( )\<close> stay, every other byte of
  the UTF-8 text becomes \<open>%XX\<close>.
\<close>

definition encodeURIComponent :: "string \<Rightarrow> string" where
  "encodeURIComponent s =
     concat (map (\<lambda>c. if unreserved c then [c]
                       else [CHR ''%'', hex_digit (of_char c div 16), hex_digit (of_char c mod 16)]) s)"

text \<open>The receiver of a String method such as \<open>toLowerCase\<close>: anything but a string throws.\<close>

fun as_string :: "jsval \<Rightarrow> string option" where
  "as_string (Str s) = Some s"
| "as_string v = None"


section \<open>BooksAPI\<close>

text \<open>
  A book, as the object literals of \<open>searchBooks\<close>, \<open>getBookDetails\<close> and \<open>getSampleBooks\<close>
  build it. A literal that leaves a property out reads as \<open>undefined\<close> there, so the record
  holds \<open>Undefined\<close> in that field. \<open>averageRating\<close> is a literal of the program in each of
  the three (4.0, 4.0 and 4.5).
\<close>

record book =
  book_id :: jsval
  title :: jsval
  authors :: jsval
  authorDetails :: jsval
  publishedDate :: jsval
  description :: jsval
  categories :: jsval
  subjects :: jsval
  thumbnail :: jsval
  previewLink :: jsval
  pageCount :: jsval
  averageRating :: rat
  isbn :: jsval
  firstSentence :: jsval
  links :: jsval
  excerpts :: jsval

text \<open>
  What one call of \<open>fetch\<close> comes to. \<open>None\<close> is the rejected promise (transport failure);
  otherwise a response with its status and, when the body parses as JSON, the parsed value
  (\<open>body = None\<close>: \<open>response.json()\<close> rejects). A \<open>network\<close> answers a request of an
  operation given its place in the operation and the URL requested. The place is 0 for
  the one request of \<open>searchBooks\<close>; \<open>getBookDetails\<close> numbers its requests below.
\<close>

record response =
  status :: nat
  body :: "jsval option"

definition ok :: "response \<Rightarrow> bool" where
  "ok r = (200 \<le> status r \<and> status r \<le> 299)"

type_synonym network = "nat \<Rightarrow> string \<Rightarrow> response option"

subsection \<open>getSampleBooks\<close>

definition allBooks :: "book list" where
  "allBooks =
     [\<lparr> book_id = Str ''OL82565W'',
        title = Str ''Harry Potter and the Philosopher's Stone'',
        authors = Arr [Str ''J.K. Rowling''],
        authorDetails = Undefined,
        publishedDate = Str ''1997'',
        description = Str ''Harry Potter discovers he is a wizard and begins his education at Hogwarts School of Witchcraft and Wizardry.'',
        categories = Arr [Str ''Fantasy'', Str ''Fiction''],
        subjects = Undefined,
        thumbnail = Str ''https://covers.openlibrary.org/b/id/10514553-M.jpg'',
        previewLink = Str ''https://openlibrary.org/works/OL82565W'',
        pageCount = Num 223,
        averageRating = 9 / 2,
        isbn = Undefined,
        firstSentence = Undefined,
        links = Undefined,
        excerpts = Undefined \<rparr>]"

text \<open>\<open>authors.some(author => author.toLowerCase().includes(queryLower))\<close>\<close>

fun some_includes :: "case_mapping \<Rightarrow> jsval list \<Rightarrow> string \<Rightarrow> bool option" where
  "some_includes toLowerCase [] queryLower = Some False"
| "some_includes toLowerCase (author # rest) queryLower =
     do { a \<leftarrow> as_string author;
          if includes_str (toLowerCase a) queryLower then Some True
          else some_includes toLowerCase rest queryLower }"

text \<open>The callback of the filter in \<open>getSampleBooks\<close>.\<close>

definition sample_matches :: "case_mapping \<Rightarrow> string \<Rightarrow> book \<Rightarrow> bool option" where
  "sample_matches toLowerCase queryLower b =
     do { t \<leftarrow> as_string (title b);
          if includes_str (toLowerCase t) queryLower then Some True
          else (case authors b of
                  Arr as \<Rightarrow> some_includes toLowerCase as queryLower
                | _ \<Rightarrow> None) }"

fun filter_js :: "('a \<Rightarrow> bool option) \<Rightarrow> 'a list \<Rightarrow> 'a list option" where
  "filter_js p [] = Some []"
| "filter_js p (x # xs) =
     do { keep \<leftarrow> p x;
          rest \<leftarrow> filter_js p xs;
          Some (if keep then x # rest else rest) }"

definition getSampleBooks :: "case_mapping \<Rightarrow> string \<Rightarrow> book list option" where
  "getSampleBooks toLowerCase query =
     (if query \<noteq> []
      then filter_js (sample_matches toLowerCase (toLowerCase query)) allBooks
      else Some allBooks)"

subsection \<open>searchBooks\<close>

text \<open>The URL of the request. \<open>startIndex\<close> is a parameter of \<open>searchBooks\<close>.\<close>

definition search_url :: "string \<Rightarrow> nat \<Rightarrow> nat \<Rightarrow> string" where
  "search_url query startIndex maxResults =
     ''https://openlibrary.org/search.json?q='' @ encodeURIComponent query
       @ ''&page=1&limit='' @ show_nat maxResults"

text \<open>The callback of \<open>data.docs.map\<close>: one document of the response and its index.\<close>

definition book_of_doc :: "jsval \<Rightarrow> nat \<Rightarrow> book option" where
  "book_of_doc doc index =
     do { key \<leftarrow> get doc Key;
          doc_title \<leftarrow> get doc Title;
          author_name \<leftarrow> get doc Author_name;
          first_publish_year \<leftarrow> get doc First_publish_year;
          doc_description \<leftarrow> get doc Description;
          subject \<leftarrow> get doc Subject;
          doc_categories \<leftarrow>
            (if truthy subject then slice0 3 subject else Some (Arr [Str ''General'']));
          cover_i \<leftarrow> get doc Cover_i;
          pages \<leftarrow> get doc Number_of_pages_median;
          doc_isbn \<leftarrow> get doc Isbn;
          isbn0 \<leftarrow> (if truthy doc_isbn then index0 doc_isbn else Some Null);
          Some \<lparr> book_id = or_js key (Str (''book-'' @ show_nat index)),
                 title = or_js doc_title (Str ''Unknown Title''),
                 authors = or_js author_name (Arr [Str ''Unknown Author'']),
                 authorDetails = Undefined,
                 publishedDate = or_js first_publish_year (Str ''Unknown''),
                 description = or_js doc_description (Str ''Description available in detailed view''),
                 categories = doc_categories,
                 subjects = Undefined,
                 thumbnail =
                   (if truthy cover_i
                    then Str (''https://covers.openlibrary.org/b/id/'' @ toString cover_i @ ''-M.jpg'')
                    else Null),
                 previewLink = Str (''https://openlibrary.org'' @ toString key),
                 pageCount = or_js pages Null,
                 averageRating = 4,
                 isbn = isbn0,
                 firstSentence = Undefined,
                 links = Undefined,
                 excerpts = Undefined \<rparr> }"

text \<open>\<open>xs.map((x, index) => f(x, index))\<close> with a callback that may throw.\<close>

fun map_index :: "(jsval \<Rightarrow> nat \<Rightarrow> 'a option) \<Rightarrow> jsval list \<Rightarrow> nat \<Rightarrow> 'a list option" where
  "map_index f [] i = Some []"
| "map_index f (x # xs) i =
     do { y \<leftarrow> f x i;
          ys \<leftarrow> map_index f xs (Suc i);
          Some (y # ys) }"

text \<open>
  The body of the \<open>try\<close> block of \<open>searchBooks\<close>. Only an array has \<open>map\<close>: a non-empty string
  under \<open>docs\<close> passes the length test and then throws.
\<close>

definition searchBooks_try ::
  "case_mapping \<Rightarrow> network \<Rightarrow> string \<Rightarrow> nat \<Rightarrow> nat \<Rightarrow> book list option" where
  "searchBooks_try toLowerCase fetch query startIndex maxResults =
     do { response \<leftarrow> fetch 0 (search_url query startIndex maxResults);
          data \<leftarrow> (if ok response then body response else None);
          docs \<leftarrow> get data Docs;
          nonempty \<leftarrow> (if truthy docs then length_positive docs else Some False);
          if nonempty
          then (case docs of Arr ds \<Rightarrow> map_index book_of_doc ds 0 | _ \<Rightarrow> None)
          else getSampleBooks toLowerCase query }"

text \<open>\<open>searchBooks\<close>: the \<open>try\<close> block, and the \<open>catch\<close> clause when it throws.\<close>

definition searchBooks ::
  "case_mapping \<Rightarrow> network \<Rightarrow> string \<Rightarrow> nat \<Rightarrow> nat \<Rightarrow> book list option" where
  "searchBooks toLowerCase fetch query startIndex maxResults =
     (case searchBooks_try toLowerCase fetch query startIndex maxResults of
        Some books \<Rightarrow> Some books
      | None \<Rightarrow> getSampleBooks toLowerCase query)"

subsection \<open>getBookDetails\<close>

text \<open>
  Within \<open>getBookDetails\<close> the network answers request 0, the fetch of the work, and
  request \<open>i + 1\<close>, the lookup for the author at index \<open>i\<close> of the work's author list.
\<close>

definition work_url :: "string \<Rightarrow> string" where
  "work_url cleanId = ''https://openlibrary.org/works/'' @ cleanId @ ''.json''"

definition author_url :: "jsval \<Rightarrow> string" where
  "author_url key = ''https://openlibrary.org'' @ toString key @ ''.json''"

text \<open>The object that the \<open>catch\<close> clause of one author lookup returns.\<close>

definition placeholder_author :: jsval where
  "placeholder_author =
     Obj [(Name, Str ''Unknown Author''),
          (Bio, Str ''No biography available''),
          (Birth_date, Str ''Unknown'')]"

text \<open>
  The \<open>try\<close> block of the callback that looks one author up. The status of the response is
  not tested: any body that parses is read.
\<close>

definition author_lookup_try :: "(string \<Rightarrow> response option) \<Rightarrow> jsval \<Rightarrow> jsval option" where
  "author_lookup_try fetch1 author =
     do { ref \<leftarrow> get author Author;
          key \<leftarrow> get ref Key;
          authorResponse \<leftarrow> fetch1 (author_url key);
          authorData \<leftarrow> body authorResponse;
          author_name \<leftarrow> get authorData Name;
          author_bio \<leftarrow> get authorData Bio;
          author_birth \<leftarrow> get authorData Birth_date;
          Some (Obj [(Name, or_js author_name (Str ''Unknown Author'')),
                     (Bio, or_js author_bio (Str ''No biography available'')),
                     (Birth_date, or_js author_birth (Str ''Unknown''))]) }"

definition author_lookup :: "(string \<Rightarrow> response option) \<Rightarrow> jsval \<Rightarrow> jsval" where
  "author_lookup fetch1 author =
     (case author_lookup_try fetch1 author of
        Some details \<Rightarrow> details
      | None \<Rightarrow> placeholder_author)"

text \<open>\<open>Promise.all(bookData.authors.map(async (author) => ...))\<close>, from index \<open>i\<close> on.\<close>

fun author_lookups :: "network \<Rightarrow> nat \<Rightarrow> jsval list \<Rightarrow> jsval list" where
  "author_lookups fetch i [] = []"
| "author_lookups fetch i (author # rest) =
     author_lookup (fetch (Suc i)) author # author_lookups fetch (Suc i) rest"

text \<open>\<open>author.name\<close> on an element of \<open>authorDetails\<close>, each of which is an object.\<close>

definition name_of :: "jsval \<Rightarrow> jsval" where
  "name_of details = (case get details Name of Some n \<Rightarrow> n | None \<Rightarrow> Undefined)"

fun is_string :: "jsval \<Rightarrow> bool" where
  "is_string (Str s) = True"
| "is_string v = False"

definition getBookDetails_try :: "network \<Rightarrow> string \<Rightarrow> book option" where
  "getBookDetails_try fetch bookId =
     do { let cleanId = replace bookId ''/works/'' [];
          response \<leftarrow> fetch 0 (work_url cleanId);
          bookData \<leftarrow> (if ok response then body response else None);
          work_description \<leftarrow> get bookData Description;
          fullDescription \<leftarrow>
            (if truthy work_description
             then (if is_string work_description then Some work_description
                   else do { v \<leftarrow> get work_description Value;
                             Some (or_js v (Str ''Description available'')) })
             else Some (Str ''No description available''));
          work_authors \<leftarrow> get bookData Authors;
          has_authors \<leftarrow> (if truthy work_authors then length_positive work_authors else Some False);
          details \<leftarrow>
            (if has_authors
             then (case work_authors of Arr as \<Rightarrow> Some (author_lookups fetch 0 as) | _ \<Rightarrow> None)
             else Some []);
          work_title \<leftarrow> get bookData Title;
          first_publish_date \<leftarrow> get bookData First_publish_date;
          work_subjects \<leftarrow> get bookData Subjects;
          work_categories \<leftarrow>
            (if truthy work_subjects then slice0 5 work_subjects else Some (Arr [Str ''General'']));
          covers \<leftarrow> get bookData Covers;
          cover0 \<leftarrow> (if truthy covers then index0 covers else Some covers);
          pages \<leftarrow> get bookData Number_of_pages;
          first_sentence \<leftarrow> get bookData First_sentence;
          work_links \<leftarrow> get bookData Links;
          work_excerpts \<leftarrow> get bookData Excerpts;
          Some \<lparr> book_id = Str cleanId,
                 title = or_js work_title (Str ''Unknown Title''),
                 authors =
                   (if has_authors then Arr (map name_of details)
                    else Arr [Str ''Unknown Author'']),
                 authorDetails = Arr details,
                 publishedDate = or_js first_publish_date (Str ''Unknown''),
                 description = fullDescription,
                 categories = work_categories,
                 subjects = or_js work_subjects (Arr []),
                 thumbnail =
                   (if truthy cover0
                    then Str (''https://covers.openlibrary.org/b/id/'' @ toString cover0 @ ''-L.jpg'')
                    else Null),
                 previewLink = Str (''https://openlibrary.org/works/'' @ cleanId),
                 pageCount = or_js pages Null,
                 averageRating = 4,
                 isbn = Undefined,
                 firstSentence = or_js first_sentence Null,
                 links = or_js work_links (Arr []),
                 excerpts = or_js work_excerpts (Arr []) \<rparr> }"



section \<open>GeminiAPI\<close>

text \<open>
  A multi-line template literal is the list of its lines joined by line feeds. \<open>dq\<close> is the
  double quote and \<open>bullet\<close> the sign U+2022 of the fallback text, as its UTF-8 bytes.
\<close>

definition lines_text :: "string list \<Rightarrow> string" where
  "lines_text ls = intercalate [CHR 0x0A] ls"

definition dq :: string where
  "dq = [CHR 0x22]"


text \<open>\<open>v ? v.join(', ') : dflt\<close>\<close>

definition joined_or :: "jsval \<Rightarrow> string \<Rightarrow> string option" where
  "joined_or v dflt = (if truthy v then join '', '' v else Some dflt)"

text \<open>\<open>v ? v.slice(0, n).join(', ') : dflt\<close>, the subjects of both texts (with \<open>n\<close> 10 and 5).\<close>

definition sliced_joined :: "nat \<Rightarrow> jsval \<Rightarrow> string option" where
  "sliced_joined n v = do { part \<leftarrow> slice0 n v; join '', '' part }"

subsection \<open>createPrompt\<close>

text \<open>The lines of \<open>bookInfo\<close> that depend on an optional field of the book.\<close>

definition subjects_line :: "book \<Rightarrow> string option" where
  "subjects_line b =
     do { s \<leftarrow> (if truthy (subjects b) then sliced_joined 10 (subjects b)
               else Some ''No subjects available'');
          Some (''SUBJECTS: '' @ s) }"

definition first_sentence_section :: "book \<Rightarrow> string" where
  "first_sentence_section b =
     (if truthy (firstSentence b) then ''FIRST SENTENCE: '' @ toString (firstSentence b) else [])"

text \<open>\<open>book.authorDetails[0]?.bio\<close>: \<open>undefined\<close> when the first element is \<open>undefined\<close> or \<open>null\<close>.\<close>

definition author_bio_section :: "book \<Rightarrow> string option" where
  "author_bio_section b =
     (if truthy (authorDetails b)
      then do { first \<leftarrow> index0 (authorDetails b);
                bio \<leftarrow> (if first = Undefined \<or> first = Null then Some Undefined
                         else get first Bio);
                Some (''AUTHOR BIO: '' @ toString (or_js bio (Str ''No biography available''))) }
      else Some [])"

definition excerpts_section :: "book \<Rightarrow> string option" where
  "excerpts_section b =
     do { nonempty \<leftarrow> (if truthy (excerpts b) then length_positive (excerpts b) else Some False);
          if nonempty
          then (case excerpts b of
                  Arr es \<Rightarrow>
                    do { texts \<leftarrow> those (map (\<lambda>e. get e Excerpt) es);
                         joined \<leftarrow> join [CHR 0x0A] (Arr texts);
                         Some (''BOOK EXCERPTS: '' @ joined) }
                | _ \<Rightarrow> None)
          else Some [] }"

definition bookInfo :: "book \<Rightarrow> string option" where
  "bookInfo b =
     do { author_names \<leftarrow> joined_or (authors b) ''Unknown Author'';
          category_names \<leftarrow> joined_or (categories b) ''General'';
          subjects_text \<leftarrow> subjects_line b;
          bio_text \<leftarrow> author_bio_section b;
          excerpts_text \<leftarrow> excerpts_section b;
          Some (trim (lines_text
             [[],
              ''EXACT BOOK DATA FROM OPENLIBRARY API:'',
              [],
              ''BOOK ID: '' @ toString (book_id b),
              ''TITLE: '' @ dq @ toString (title b) @ dq,
              ''AUTHOR(S): '' @ author_names,
              ''PUBLICATION YEAR: '' @ toString (or_js (publishedDate b) (Str ''Unknown'')),
              ''DESCRIPTION: '' @ toString (or_js (description b) (Str ''No description available'')),
              ''CATEGORIES: '' @ category_names,
              subjects_text,
              ''PAGE COUNT: '' @ toString (or_js (pageCount b) (Str ''Unknown'')),
              first_sentence_section b,
              bio_text,
              excerpts_text,
              []])) }"

definition createPrompt :: "book \<Rightarrow> string \<Rightarrow> string option" where
  "createPrompt b question =
     do { info \<leftarrow> bookInfo b;
          Some (trim (lines_text
             [[],
              ''You are an expert book analyst. I will provide you with exact book data from the OpenLibrary API, and you must answer the user's question using ONLY this specific book information.'',
              [],
              info,
              [],
              ''USER'S SPECIFIC QUESTION: '' @ dq @ question @ dq,
              [],
              ''CRITICAL INSTRUCTIONS:'',
              ''1. Use ONLY the book information provided above from OpenLibrary API'',
              ''2. Do not use any external knowledge or general information about similar books'',
              ''3. If the OpenLibrary data doesn't contain information to answer the question, clearly state this'',
              ''4. Be specific and reference the exact data points from the OpenLibrary response'',
              ''5. If describing the book, use the exact description, categories, and subjects provided'',
              ''6. If discussing authors, use only the author information from the API'',
              ''7. Structure your response to be helpful and informative based on the available data'',
              [],
              ''IMPORTANT: Your response must be based SOLELY on the OpenLibrary data provided above. Do not add any external knowledge.'',
              [],
              ''Now, please answer the user's question using only the provided OpenLibrary book data:'',
              ''        ''])) }"

subsection \<open>generateFallbackResponse\<close>




subsection \<open>askQuestionAboutBook\<close>






section \<open>BookVerseApp\<close>

subsection \<open>toggleFavorite\<close>

text \<open>
  The favorite button of a card: the class list of the \<open>i\<close> element inside it, and its
  label. \<open>createBookCard\<close> renders every button as \<open>card_button\<close>, whatever the store holds.
  The entry \<open>bookFavorites\<close> of the local store is absent (\<open>None\<close>) or holds the JSON text
  of a list of identifiers, which the model keeps as the list: \<open>toggleFavorite\<close> parses the
  text and writes the list back whole.
\<close>

record button =
  icon_classes :: "string list"
  label :: string

definition card_button :: button where
  "card_button = \<lparr> icon_classes = [''far'', ''fa-heart''], label = '' Favorite'' \<rparr>"

type_synonym storage = "string list option"

text \<open>\<open>JSON.parse(localStorage.getItem('bookFavorites') || '[]')\<close>\<close>

definition read_favorites :: "storage \<Rightarrow> string list" where
  "read_favorites store = (case store of None \<Rightarrow> [] | Some ids \<Rightarrow> ids)"

definition toggleFavorite :: "string \<Rightarrow> button \<Rightarrow> storage \<Rightarrow> button \<times> storage" where
  "toggleFavorite bookId btn store =
     (let isFavorited = (''fas'' \<in> set (icon_classes btn)) in
      if \<not> isFavorited
      then (let favorites = read_favorites store in
              (\<lparr> icon_classes = [''fas'', ''fa-heart''], label = '' Favorited'' \<rparr>,
               if bookId \<notin> set favorites then Some (favorites @ [bookId]) else store))
      else (let favorites = read_favorites store in
              (\<lparr> icon_classes = [''far'', ''fa-heart''], label = '' Favorite'' \<rparr>,
               if bookId \<in> set favorites then Some (remove1 bookId favorites) else store)))"

text \<open>Two clicks on the same button.\<close>

definition toggle_twice :: "string \<Rightarrow> button \<Rightarrow> storage \<Rightarrow> button \<times> storage" where
  "toggle_twice bookId btn store =
     (let (btn', store') = toggleFavorite bookId btn store
      in toggleFavorite bookId btn' store')"

subsection \<open>Loading\<close>

text \<open>
  The fields of the controller that the loading code reads and writes, and the calls it is
  awaiting. An async method runs to its \<open>await\<close> when an event calls it and runs on from
  there when the awaited call settles, other events taking their turn in between. So the
  state lists the awaited calls: \<open>searches_in_flight\<close> holds the arguments of each
  \<open>searchBooks\<close> call awaited by \<open>loadBooks\<close> (query and start index) with the
  \<open>clearContainer\<close> flag of that \<open>loadBooks\<close>, and \<open>details_in_flight\<close> the argument of each
  \<open>getBookDetails\<close> call awaited by \<open>openBookModal\<close>. The document is not part of the state.
\<close>

record app =
  currentBook :: "book option"
  currentPage :: nat
  currentSearchQuery :: string
  isLoading :: bool
  searches_in_flight :: "(string \<times> nat \<times> bool) list"
  details_in_flight :: "string list"

text \<open>\<open>loadBooks\<close> up to \<open>await BooksAPI.searchBooks(this.currentSearchQuery, this.currentPage * 12)\<close>\<close>

definition loadBooks :: "bool \<Rightarrow> app \<Rightarrow> app" where
  "loadBooks clearContainer s =
     (if isLoading s then s
      else s\<lparr> isLoading := True,
              searches_in_flight :=
                searches_in_flight s @ [(currentSearchQuery s, currentPage s * 12, clearContainer)] \<rparr>)"

text \<open>
  \<open>loadBooks\<close> from the point where the awaited search number \<open>k\<close> settles: the results are
  rendered, and the \<open>finally\<close> clause clears the flag.
\<close>

definition loadBooks_resume :: "nat \<Rightarrow> app \<Rightarrow> app" where
  "loadBooks_resume k s =
     (if k < length (searches_in_flight s)
      then s\<lparr> isLoading := False,
              searches_in_flight := take k (searches_in_flight s) @ drop (Suc k) (searches_in_flight s) \<rparr>
      else s)"

text \<open>\<open>handleSearch\<close> and \<open>handleGlobalSearch\<close>, given the text of their input box.\<close>

definition handleSearch :: "string \<Rightarrow> app \<Rightarrow> app" where
  "handleSearch input s =
     loadBooks True
       (s\<lparr> currentSearchQuery := (if trim input \<noteq> [] then trim input else ''harry potter''),
           currentPage := 0 \<rparr>)"

definition handleGlobalSearch :: "string \<Rightarrow> app \<Rightarrow> app" where
  "handleGlobalSearch input s =
     loadBooks True
       (s\<lparr> currentSearchQuery := (if trim input \<noteq> [] then trim input else ''harry potter''),
           currentPage := 0 \<rparr>)"

definition loadMoreBooks :: "app \<Rightarrow> app" where
  "loadMoreBooks s =
     (if isLoading s then s
      else loadBooks False (s\<lparr> currentPage := currentPage s + 1 \<rparr>))"

text \<open>\<open>openBookModal\<close> up to \<open>await BooksAPI.getBookDetails(bookId)\<close>, and from there on.\<close>

definition openBookModal :: "string \<Rightarrow> app \<Rightarrow> app" where
  "openBookModal bookId s = s\<lparr> details_in_flight := details_in_flight s @ [bookId] \<rparr>"

definition openBookModal_resume :: "nat \<Rightarrow> book option \<Rightarrow> app \<Rightarrow> app" where
  "openBookModal_resume k result s =
     (if k < length (details_in_flight s)
      then s\<lparr> currentBook := result,
              details_in_flight := take k (details_in_flight s) @ drop (Suc k) (details_in_flight s) \<rparr>
      else s)"

definition closeModal :: "app \<Rightarrow> app" where
  "closeModal s = s\<lparr> currentBook := None \<rparr>"

text \<open>The constructor, whose last statement \<open>this.init()\<close> calls \<open>loadBooks()\<close>.\<close>

definition new_app :: app where
  "new_app =
     loadBooks True
       \<lparr> currentBook = None, currentPage = 0, currentSearchQuery = ''harry potter'',
         isLoading = False, searches_in_flight = [], details_in_flight = [] \<rparr>"

text \<open>
  What the event loop can run next: a handler that \<open>setupEventListeners\<close> registers, or the
  rest of an async method whose awaited call has settled.
\<close>

datatype event =
    Search_clicked string
  | Global_search_clicked string
  | Load_more_clicked
  | View_book_clicked string
  | Modal_closed
  | Search_settled nat
  | Details_settled nat "book option"

fun fire :: "event \<Rightarrow> app \<Rightarrow> app" where
  "fire (Search_clicked input) s = handleSearch input s"
| "fire (Global_search_clicked input) s = handleGlobalSearch input s"
| "fire Load_more_clicked s = loadMoreBooks s"
| "fire (View_book_clicked bookId) s = openBookModal bookId s"
| "fire Modal_closed s = closeModal s"
| "fire (Search_settled k) s = loadBooks_resume k s"
| "fire (Details_settled k result) s = openBookModal_resume k result s"

text \<open>The state after a sequence of events, from the freshly constructed controller.\<close>

definition run :: "event list \<Rightarrow> app" where
  "run es = foldl (\<lambda>s e. fire e s) new_app es"

text \<open>An event starts a load when more calls are awaited after it than before.\<close>

definition starts_search :: "event \<Rightarrow> app \<Rightarrow> bool" where
  "starts_search e s = (length (searches_in_flight s) < length (searches_in_flight (fire e s)))"

definition starts_details :: "event \<Rightarrow> app \<Rightarrow> bool" where
  "starts_details e s = (length (details_in_flight s) < length (details_in_flight (fire e s)))"

section \<open>Properties stated of the program\<close>

text \<open>
  A sample is matched by a query when the query occurs, letter case aside, in its title or
  in one of its author names.
\<close>

fun str_matches :: "case_mapping \<Rightarrow> string \<Rightarrow> jsval \<Rightarrow> bool" where
  "str_matches toLowerCase query (Str s) = includes_str (toLowerCase s) (toLowerCase query)"
| "str_matches toLowerCase query v = False"

definition matches_query :: "case_mapping \<Rightarrow> string \<Rightarrow> book \<Rightarrow> bool" where
  "matches_query toLowerCase query b =
     (str_matches toLowerCase query (title b)
      \<or> (case authors b of
            Arr as \<Rightarrow> list_ex (str_matches toLowerCase query) as
          | _ \<Rightarrow> False))"

text \<open>
  The remote lookup fails: no response, a status outside 200 to 299, or a body that is not
  JSON. It yields zero results: a JSON body whose \<open>docs\<close> member is missing, \<open>null\<close> or the
  empty list.
\<close>

definition lookup_failed :: "response option \<Rightarrow> bool" where
  "lookup_failed r = (case r of None \<Rightarrow> True | Some resp \<Rightarrow> \<not> ok resp \<or> body resp = None)"

definition zero_results :: "response option \<Rightarrow> bool" where
  "zero_results r =
     (case r of
        None \<Rightarrow> False
      | Some resp \<Rightarrow>
          ok resp \<and>
          (case body resp of
             None \<Rightarrow> False
           | Some data \<Rightarrow>
               (case get data Docs of
                  None \<Rightarrow> False
                | Some docs \<Rightarrow> docs = Undefined \<or> docs = Null \<or> docs = Arr [])))"

text \<open>
  What \<open>slice(0, n)\<close> leaves under \<open>categories\<close>: a list of at most \<open>n\<close> tags, or, where the
  response held a string in place of the list, a string of at most \<open>n\<close> characters.
\<close>

fun at_most_tags :: "nat \<Rightarrow> jsval \<Rightarrow> bool" where
  "at_most_tags n (Arr xs) = (length xs \<le> n)"
| "at_most_tags n (Str s) = (length s \<le> n)"
| "at_most_tags n v = False"

text \<open>A list field of a book record holds a list, unless the record leaves it out.\<close>

fun list_or_absent :: "jsval \<Rightarrow> bool" where
  "list_or_absent Undefined = True"
| "list_or_absent Null = True"
| "list_or_absent (Arr xs) = True"
| "list_or_absent v = False"


text \<open>
  A book has no subjects, no first sentence and no excerpts: the two list fields are left
  out or hold the empty list, the first sentence is left out.
\<close>

fun absent :: "jsval \<Rightarrow> bool" where
  "absent Undefined = True"
| "absent Null = True"
| "absent v = False"

fun absent_or_empty :: "jsval \<Rightarrow> bool" where
  "absent_or_empty (Arr xs) = (xs = [])"
| "absent_or_empty v = absent v"

definition empty_optionals :: "book \<Rightarrow> bool" where
  "empty_optionals b =
     (absent_or_empty (subjects b) \<and> absent (firstSentence b) \<and> absent_or_empty (excerpts b))"


text \<open>
  Every number in a value is an integer that the runtime prints digit by digit, and every
  number in the fields of a book that the prompt and the fallback text print is.
\<close>

fun safe_integers :: "jsval \<Rightarrow> bool" where
  "safe_integers (Num n) = (\<bar>n\<bar> \<le> 9007199254740991)"
| "safe_integers (Arr xs) = list_all safe_integers xs"
| "safe_integers (Obj kvs) = list_all (\<lambda>(k, v). safe_integers v) kvs"
| "safe_integers v = True"

definition exact_numbers :: "book \<Rightarrow> bool" where
  "exact_numbers b =
     list_all safe_integers
       [book_id b, title b, authors b, authorDetails b, publishedDate b, description b,
        categories b, subjects b, pageCount b, firstSentence b, excerpts b]"

text \<open>
  The text that stands for a list field of a record: the elements of the list joined by a
  comma and a space, or the default text where the field holds no list.
\<close>

fun listed :: "string \<Rightarrow> jsval \<Rightarrow> string" where
  "listed dflt (Arr xs) =
     intercalate '', '' (map (\<lambda>x. if x = Undefined \<or> x = Null then [] else toString x) xs)"
| "listed dflt v = dflt"

text \<open>
  The guard of \<open>loadBooks\<close>: at most one search is awaited, and the flag is set exactly
  while one is.
\<close>

definition one_load :: "app \<Rightarrow> bool" where
  "one_load s =
     (length (searches_in_flight s) \<le> 1 \<and> (isLoading s \<longleftrightarrow> searches_in_flight s \<noteq> []))"

section \<open>Example inputs\<close>

text \<open>The case mapping of the runtime on ASCII text: the letters A to Z change.\<close>

definition lower_char :: "char \<Rightarrow> char" where
  "lower_char c =
     (case map_of (zip ''ABCDEFGHIJKLMNOPQRSTUVWXYZ'' ''abcdefghijklmnopqrstuvwxyz'') c of
        Some l \<Rightarrow> l
      | None \<Rightarrow> c)"

definition ascii_toLowerCase :: case_mapping where
  "ascii_toLowerCase s = map lower_char s"

definition answering :: "jsval \<Rightarrow> response" where
  "answering v = \<lparr> status = 200, body = Some v \<rparr>"

text \<open>A work with two authors and seven subjects; the lookup of its first author fails.\<close>

definition two_author_work :: jsval where
  "two_author_work =
     Obj [(Title, Str ''Dune''),
          (Authors, Arr [Obj [(Author, Obj [(Key, Str ''/authors/OL1A'')])],
                         Obj [(Author, Obj [(Key, Str ''/authors/OL2A'')])]]),
          (Subjects, Arr [Str ''Science fiction'', Str ''Deserts'', Str ''Ecology'',
                          Str ''Politics'', Str ''Religion'', Str ''Empires'', Str ''Spice''])]"

definition second_author :: jsval where
  "second_author = Obj [(Name, Str ''Frank Herbert''), (Birth_date, Str ''1920'')]"

definition flaky_network :: network where
  "flaky_network n url =
     (if n = 0 then Some (answering two_author_work)
      else if n = 1 then None
      else Some (answering second_author))"

text \<open>A work that names only its title, and a search response of two documents.\<close>

definition bare_network :: network where
  "bare_network n url = Some (answering (Obj [(Title, Str ''Emma'')]))"

definition search_network :: network where
  "search_network n url =
     Some (answering (Obj [(Docs, Arr
       [Obj [(Key, Str ''/works/OL1W''), (Title, Str ''Dune''),
             (Subject, Arr [Str ''Science fiction'', Str ''Deserts'', Str ''Ecology'', Str ''Politics''])],
        Obj [(Key, Str ''/works/OL2W''), (Title, Str ''Emma'')]])]))"

text \<open>A search response whose one document lists no subjects.\<close>

definition no_subject_network :: network where
  "no_subject_network n url =
     Some (answering (Obj [(Docs, Arr [Obj [(Title, Str ''Emma''), (Subject, Arr [])]])]))"





section \<open>BooksAPI: what search returns\<close>

lemma includes_str_Nil: "includes_str s []"
  by (cases s) simp_all

lemma some_includes_strs:
  "\<forall>a\<in>set as. \<exists>s. a = Str s \<Longrightarrow>
   some_includes toLowerCase as (toLowerCase query)
     = Some (list_ex (str_matches toLowerCase query) as)"
  by (induction as) auto

lemma sample_matches_sample:
  "b \<in> set allBooks \<Longrightarrow>
   sample_matches toLowerCase (toLowerCase query) b = Some (matches_query toLowerCase query b)"
  by (auto simp: allBooks_def sample_matches_def matches_query_def simp del: includes_str.simps)

lemma filter_js_total:
  "\<forall>x\<in>set xs. p x = Some (q x) \<Longrightarrow> filter_js p xs = Some (filter q xs)"
  by (induction xs) auto

text \<open>\<open>getSampleBooks\<close> never throws on the embedded list, whatever the case mapping.\<close>

lemma getSampleBooks_filter:
  "filter_js (sample_matches toLowerCase (toLowerCase query)) allBooks
   = Some (filter (matches_query toLowerCase query) allBooks)"
  by (rule filter_js_total) (simp add: sample_matches_sample)

lemma getSampleBooks_returns: "\<exists>books. getSampleBooks toLowerCase query = Some books"
  by (simp add: getSampleBooks_def getSampleBooks_filter)

text \<open>
  The branch for an empty query agrees with the filter when the case mapping maps the
  empty string to itself, as \<open>String.prototype.toLowerCase\<close> does: the empty string occurs in
  every title.
\<close>

lemma getSampleBooks_eq:
  assumes "toLowerCase [] = []"
  shows "getSampleBooks toLowerCase query = Some (filter (matches_query toLowerCase query) allBooks)"
proof (cases "query = []")
  case True
  have "\<forall>b\<in>set allBooks. matches_query toLowerCase [] b"
    using assms by (simp add: allBooks_def matches_query_def includes_str_Nil)
  then have "filter (matches_query toLowerCase []) allBooks = allBooks"
    by simp
  with True show ?thesis by (simp add: getSampleBooks_def)
next
  case False
  then show ?thesis
    by (simp add: getSampleBooks_def getSampleBooks_filter)
qed

text \<open>
  C1. When the remote lookup of a query fails or yields zero results, \<open>searchBooks\<close> returns
  the embedded sample list filtered by the query, and every entry of the returned list has
  the query, letter case aside, in its title or in one of its author names. This holds
  under every case mapping that maps the empty string to itself, the one of the runtime
  among them.
\<close>

theorem search_falls_back_to_matching_samples:
  assumes "toLowerCase [] = []"
    and "lookup_failed (fetch 0 (search_url query startIndex maxResults))
         \<or> zero_results (fetch 0 (search_url query startIndex maxResults))"
  shows "\<exists>books. searchBooks toLowerCase fetch query startIndex maxResults = Some books
           \<and> books = filter (matches_query toLowerCase query) allBooks
           \<and> (\<forall>b\<in>set books. matches_query toLowerCase query b)"
proof -
  have "searchBooks_try toLowerCase fetch query startIndex maxResults = None
        \<or> searchBooks_try toLowerCase fetch query startIndex maxResults
            = getSampleBooks toLowerCase query"
    using assms(2)
    by (auto simp: searchBooks_try_def lookup_failed_def zero_results_def
             split: option.splits bind_splits)
  then have "searchBooks toLowerCase fetch query startIndex maxResults
             = getSampleBooks toLowerCase query"
    using getSampleBooks_returns [of toLowerCase query] by (auto simp: searchBooks_def)
  then show ?thesis
    using getSampleBooks_eq [of toLowerCase query] assms(1) by simp
qed

theorem search_falls_back_witness:
  "ascii_toLowerCase [] = []
   \<and> lookup_failed ((\<lambda>n u. None) (0::nat) (search_url ''ROWLING'' 0 12))
   \<and> searchBooks ascii_toLowerCase (\<lambda>n u. None) ''ROWLING'' 0 12 = Some allBooks
   \<and> matches_query ascii_toLowerCase ''ROWLING'' (allBooks ! 0)
   \<and> searchBooks ascii_toLowerCase (\<lambda>n u. None) ''tolkien'' 0 12 = Some []"
proof -
  have empty: "ascii_toLowerCase [] = []"
    by (simp add: ascii_toLowerCase_def)
  have failed: "lookup_failed ((\<lambda>n u. None) (0::nat) (search_url q 0 12))" for q :: string
    by (simp add: lookup_failed_def)
  have kept: "filter (matches_query ascii_toLowerCase ''ROWLING'') allBooks = allBooks"
    by code_simp
  have hit: "matches_query ascii_toLowerCase ''ROWLING'' (allBooks ! 0)"
    by code_simp
  have dropped: "filter (matches_query ascii_toLowerCase ''tolkien'') allBooks = []"
    by code_simp
  from search_falls_back_to_matching_samples
         [of ascii_toLowerCase "\<lambda>n u. None" "''ROWLING''" 0 12] empty failed kept
  have one: "searchBooks ascii_toLowerCase (\<lambda>n u. None) ''ROWLING'' 0 12 = Some allBooks"
    by simp
  from search_falls_back_to_matching_samples
         [of ascii_toLowerCase "\<lambda>n u. None" "''tolkien''" 0 12] empty failed dropped
  have none: "searchBooks ascii_toLowerCase (\<lambda>n u. None) ''tolkien'' 0 12 = Some []"
    by simp
  from empty failed one hit none show ?thesis
    by simp
qed

text \<open>
  C2. Whatever the query, the offset, the limit and the outcome of the remote call,
  \<open>searchBooks\<close> does not throw: it returns a list of books.
\<close>

theorem searchBooks_always_returns:
  "\<exists>books. searchBooks toLowerCase fetch query startIndex maxResults = Some books"
  using getSampleBooks_returns [of toLowerCase query]
  by (simp add: searchBooks_def split: option.split)

text \<open>
  C3. \<open>searchBooks\<close> is to request the page of results that its offset names, so that
  "load more", which searches again from the next offset, gets another page than the first
  search did. The URL it builds holds \<open>page=1\<close> whatever the offset: after the first search
  for the default query has settled, "load more" awaits \<open>searchBooks\<close> from offset 12, and
  the request is the one the first search sent.
\<close>

theorem load_more_requests_the_first_page_again:
  "searches_in_flight (run []) = [(''harry potter'', 0, True)]
   \<and> searches_in_flight (run [Search_settled 0, Load_more_clicked]) = [(''harry potter'', 12, False)]
   \<and> search_url ''harry potter'' 0 12
       = ''https://openlibrary.org/search.json?q=harry%20potter&page=1&limit=12''
   \<and> search_url ''harry potter'' 12 12
       = ''https://openlibrary.org/search.json?q=harry%20potter&page=1&limit=12''
   \<and> searchBooks toLowerCase fetch ''harry potter'' 12 12
       = searchBooks toLowerCase fetch ''harry potter'' 0 12"
proof -
  have first: "searches_in_flight (run []) = [(''harry potter'', 0, True)]"
    by (simp add: run_def new_app_def loadBooks_def)
  have more: "searches_in_flight (run [Search_settled 0, Load_more_clicked])
              = [(''harry potter'', 12, False)]"
    by (simp add: run_def new_app_def loadBooks_def loadBooks_resume_def loadMoreBooks_def)
  have url0: "search_url ''harry potter'' 0 12
              = ''https://openlibrary.org/search.json?q=harry%20potter&page=1&limit=12''"
    by code_simp
  have url12: "search_url ''harry potter'' 12 12
               = ''https://openlibrary.org/search.json?q=harry%20potter&page=1&limit=12''"
    by code_simp
  have same: "searchBooks toLowerCase fetch ''harry potter'' 12 12
              = searchBooks toLowerCase fetch ''harry potter'' 0 12"
    by (simp add: searchBooks_def searchBooks_try_def search_url_def)
  from first more url0 url12 same show ?thesis by blast
qed

section \<open>BooksAPI: what getBookDetails returns\<close>




text \<open>One \<open>bind\<close> of a block that returned, peeled off.\<close>

lemma bindE:
  "Option.bind m f = Some y \<Longrightarrow> (\<And>x. m = Some x \<Longrightarrow> f x = Some y \<Longrightarrow> P) \<Longrightarrow> P"
  by (cases m) auto

text \<open>What a return of the \<open>try\<close> block of \<open>getBookDetails\<close> tells about the response.\<close>

lemma getBookDetails_try_Some:
  assumes "getBookDetails_try fetch bookId = Some b"
  shows "\<exists>resp bookData work_authors work_subjects has_authors details.
    fetch 0 (work_url (replace bookId ''/works/'' [])) = Some resp
    \<and> (if ok resp then body resp else None) = Some bookData
    \<and> get bookData Authors = Some work_authors
    \<and> (if truthy work_authors then length_positive work_authors else Some False) = Some has_authors
    \<and> (if has_authors
        then (case work_authors of Arr as \<Rightarrow> Some (author_lookups fetch 0 as) | _ \<Rightarrow> None)
        else Some []) = Some details
    \<and> get bookData Subjects = Some work_subjects
    \<and> (if truthy work_subjects then slice0 5 work_subjects else Some (Arr [Str ''General'']))
        = Some (categories b)
    \<and> authorDetails b = Arr details
    \<and> authors b = (if has_authors then Arr (map name_of details) else Arr [Str ''Unknown Author''])"
  using assms unfolding getBookDetails_try_def Let_def
  apply (elim bindE)
  apply (simp only: option.inject)
  apply hypsubst
  apply (simp (no_asm) only: book.select_convs)
  apply blast
  done




lemma name_of_placeholder: "name_of placeholder_author = Str ''Unknown Author''"
  by (simp add: name_of_def placeholder_author_def)




section \<open>BooksAPI: category tags\<close>

lemma slice0_at_most: "slice0 n v = Some c \<Longrightarrow> at_most_tags n c"
  by (cases v) auto

lemma capped_or_general:
  "(if truthy v then slice0 n v else Some (Arr [Str ''General''])) = Some c \<Longrightarrow> 0 < n \<Longrightarrow>
   at_most_tags n c \<and> (\<not> truthy v \<longrightarrow> c = Arr [Str ''General''])"
  by (auto split: if_splits dest: slice0_at_most)

lemma book_of_doc_Some:
  assumes "book_of_doc doc index = Some b"
  shows "\<exists>subject. get doc Subject = Some subject
           \<and> (if truthy subject then slice0 3 subject else Some (Arr [Str ''General'']))
               = Some (categories b)"
  using assms unfolding book_of_doc_def
  apply (elim bindE)
  apply (simp only: option.inject)
  apply hypsubst
  apply (simp (no_asm) only: book.select_convs)
  apply blast
  done

lemma book_of_doc_categories:
  "book_of_doc doc index = Some b \<Longrightarrow> at_most_tags 3 (categories b)"
  using book_of_doc_Some capped_or_general by fastforce

lemma map_index_all:
  "map_index f xs i = Some ys \<Longrightarrow> (\<And>x j y. f x j = Some y \<Longrightarrow> P y) \<Longrightarrow> \<forall>y\<in>set ys. P y"
proof (induction xs arbitrary: i ys)
  case Nil
  then show ?case by simp
next
  case (Cons x xs)
  then show ?case by (auto split: bind_splits)
qed

lemma samples_categories: "\<forall>b\<in>set allBooks. at_most_tags 3 (categories b)"
  by (simp add: allBooks_def)

lemma filter_js_subset: "filter_js p xs = Some ys \<Longrightarrow> set ys \<subseteq> set xs"
  by (induction xs arbitrary: ys) (auto split: bind_splits if_splits)

lemma getSampleBooks_categories:
  "getSampleBooks toLowerCase query = Some books \<Longrightarrow> \<forall>b\<in>set books. at_most_tags 3 (categories b)"
  using samples_categories filter_js_subset
  by (fastforce simp: getSampleBooks_def split: if_splits)

lemma searchBooks_try_categories:
  assumes "searchBooks_try toLowerCase fetch query startIndex maxResults = Some books"
  shows "\<forall>b\<in>set books. at_most_tags 3 (categories b)"
proof -
  from assms consider
      ds where "map_index book_of_doc ds 0 = Some books"
    | "getSampleBooks toLowerCase query = Some books"
    by (auto simp: searchBooks_try_def split: bind_splits if_splits jsval.splits)
  then show ?thesis
  proof cases
    case 1
    then show ?thesis
      using map_index_all [where P = "\<lambda>b. at_most_tags 3 (categories b)"] book_of_doc_categories
      by blast
  next
    case 2
    then show ?thesis
      by (rule getSampleBooks_categories)
  qed
qed

text \<open>
  C10, as the program has it. Every book that \<open>searchBooks\<close> returns carries at most 3
  category tags and every book that the \<open>try\<close> block of \<open>getBookDetails\<close> returns at most 5,
  however many subjects the response lists. When the response leaves the subject member
  out (or holds \<open>null\<close> or another falsy value there), the categories are the one tag
  General.
\<close>

theorem categories_are_capped:
  "(searchBooks toLowerCase fetch query startIndex maxResults = Some books \<longrightarrow>
      (\<forall>b\<in>set books. at_most_tags 3 (categories b)))
   \<and> (getBookDetails_try fetch' bookId = Some d \<longrightarrow> at_most_tags 5 (categories d))
   \<and> (book_of_doc doc index = Some b \<and> get doc Subject = Some subject \<and> \<not> truthy subject \<longrightarrow>
        categories b = Arr [Str ''General''])
   \<and> (getBookDetails_try fetch' bookId = Some d
        \<and> fetch' 0 (work_url (replace bookId ''/works/'' [])) = Some resp
        \<and> body resp = Some bookData \<and> get bookData Subjects = Some subject' \<and> \<not> truthy subject' \<longrightarrow>
        categories d = Arr [Str ''General''])"
proof -
  have search: "searchBooks toLowerCase fetch query startIndex maxResults = Some books \<longrightarrow>
                (\<forall>b\<in>set books. at_most_tags 3 (categories b))"
    using searchBooks_try_categories [of toLowerCase fetch query startIndex maxResults]
      getSampleBooks_categories [of toLowerCase query]
    by (auto simp: searchBooks_def split: option.splits)
  have details: "getBookDetails_try fetch' bookId = Some d \<longrightarrow> at_most_tags 5 (categories d)"
    using getBookDetails_try_Some [of fetch' bookId d] capped_or_general by fastforce
  have general: "book_of_doc doc index = Some b \<and> get doc Subject = Some subject
                 \<and> \<not> truthy subject \<longrightarrow> categories b = Arr [Str ''General'']"
    using book_of_doc_Some [of doc index b] by auto
  have general': "getBookDetails_try fetch' bookId = Some d
        \<and> fetch' 0 (work_url (replace bookId ''/works/'' [])) = Some resp
        \<and> body resp = Some bookData \<and> get bookData Subjects = Some subject' \<and> \<not> truthy subject' \<longrightarrow>
        categories d = Arr [Str ''General'']"
    using getBookDetails_try_Some [of fetch' bookId d] by (auto split: if_splits)
  from search details general general' show ?thesis by blast
qed

theorem categories_are_capped_witness:
  "(\<exists>books. searchBooks ascii_toLowerCase search_network ''dune'' 0 12 = Some books
       \<and> map categories books
           = [Arr [Str ''Science fiction'', Str ''Deserts'', Str ''Ecology''], Arr [Str ''General'']])
   \<and> (\<exists>d. getBookDetails_try flaky_network ''/works/OL1W'' = Some d
           \<and> categories d = Arr [Str ''Science fiction'', Str ''Deserts'', Str ''Ecology'',
                                 Str ''Politics'', Str ''Religion''])
   \<and> (\<exists>b. book_of_doc (Obj [(Title, Str ''Emma'')]) 1 = Some b
           \<and> get (Obj [(Title, Str ''Emma'')]) Subject = Some Undefined
           \<and> categories b = Arr [Str ''General''])
   \<and> (\<exists>d. getBookDetails_try bare_network ''OL2W'' = Some d
           \<and> get (Obj [(Title, Str ''Emma'')]) Subjects = Some Undefined
           \<and> categories d = Arr [Str ''General''])"
proof -
  have cats: "map_option (map categories) (searchBooks ascii_toLowerCase search_network ''dune'' 0 12)
        = Some [Arr [Str ''Science fiction'', Str ''Deserts'', Str ''Ecology''], Arr [Str ''General'']]"
    by code_simp
  then obtain books where books: "searchBooks ascii_toLowerCase search_network ''dune'' 0 12 = Some books"
    and shown: "map categories books
        = [Arr [Str ''Science fiction'', Str ''Deserts'', Str ''Ecology''], Arr [Str ''General'']]"
    by auto
  have "map_option categories (getBookDetails_try flaky_network ''/works/OL1W'')
        = Some (Arr [Str ''Science fiction'', Str ''Deserts'', Str ''Ecology'',
                     Str ''Politics'', Str ''Religion''])"
    by code_simp
  then obtain d where d: "getBookDetails_try flaky_network ''/works/OL1W'' = Some d"
    and five: "categories d = Arr [Str ''Science fiction'', Str ''Deserts'', Str ''Ecology'',
                                   Str ''Politics'', Str ''Religion'']"
    by auto
  have "book_of_doc (Obj [(Title, Str ''Emma'')]) 1 \<noteq> None"
    by code_simp
  then obtain b where b: "book_of_doc (Obj [(Title, Str ''Emma'')]) 1 = Some b"
    by auto
  have no_subject: "get (Obj [(Title, Str ''Emma'')]) Subject = Some Undefined"
    by simp
  have "getBookDetails_try bare_network ''OL2W'' \<noteq> None"
    by code_simp
  then obtain d' where d': "getBookDetails_try bare_network ''OL2W'' = Some d'"
    by auto
  have bare: "bare_network 0 (work_url (replace ''OL2W'' ''/works/'' []))
              = Some (answering (Obj [(Title, Str ''Emma'')]))"
    "body (answering (Obj [(Title, Str ''Emma'')])) = Some (Obj [(Title, Str ''Emma'')])"
    "get (Obj [(Title, Str ''Emma'')]) Subjects = Some Undefined"
    by (simp_all add: bare_network_def answering_def)
  from categories_are_capped [of ascii_toLowerCase search_network "''dune''" 0 12 books flaky_network
         "''/works/OL1W''" d "Obj [(Title, Str ''Emma'')]" 1 b Undefined]
    books d b no_subject
  have "categories b = Arr [Str ''General'']"
    by simp
  moreover
  from categories_are_capped [of ascii_toLowerCase search_network "''dune''" 0 12 books bare_network
         "''OL2W''" d' "Obj [(Title, Str ''Emma'')]" 1 b Undefined
         "answering (Obj [(Title, Str ''Emma'')])" "Obj [(Title, Str ''Emma'')]" Undefined]
    d' bare
  have "categories d' = Arr [Str ''General'']"
    by simp
  ultimately show ?thesis
    using books shown d five b no_subject d' bare(3) by simp
qed

text \<open>
  C10 as stated fails where a response lists its subjects as the empty list: the list is
  truthy, \<open>slice\<close> returns it, and the book has no category at all.
\<close>

theorem empty_subject_list_gives_no_category:
  "map_option (map categories) (searchBooks ascii_toLowerCase no_subject_network ''emma'' 0 12) = Some [Arr []]"
  by code_simp


section \<open>GeminiAPI: the fallback answer and the prompt\<close>

lemma joined_or_listed: "joined_or v dflt = Some s \<Longrightarrow> s = listed dflt v"
  by (cases v) (auto simp: joined_or_def split: if_splits)

lemma joined_or_typed: "list_or_absent v \<Longrightarrow> joined_or v dflt = Some (listed dflt v)"
  by (cases v) (auto simp: joined_or_def)






text \<open>A line feed at the end of a text, and so an empty last line, is lost in \<open>trim\<close>.\<close>

lemma find_only:
  assumes "x \<in> set xs" and "P x" and "\<forall>y\<in>set xs. P y \<longrightarrow> y = x"
  shows "find P xs = Some x"
proof (cases "find P xs")
  case None
  with assms(1,2) show ?thesis by (auto simp: find_None_iff)
next
  case (Some y)
  then have "P y" and "y \<in> set xs"
    by (auto simp: find_Some_iff)
  with assms(3) Some show ?thesis by simp
qed

lemma trim_append_newline: "trim (s @ [CHR 0x0A]) = trim s"
proof -
  let ?P = "\<lambda>w. w \<noteq> [] \<and> take (length w) (CHR 0x0A # rev s) = w"
  have "\<forall>w\<in>set (map rev white_space). w \<noteq> [] \<and> hd w = CHR 0x0A \<longrightarrow> w = [CHR 0x0A]"
    by (simp add: white_space_def)
  moreover have "hd w = CHR 0x0A" if "?P w" for w
    using that by (cases w) auto
  ultimately have "\<forall>w\<in>set (map rev white_space). ?P w \<longrightarrow> w = [CHR 0x0A]"
    by blast
  moreover have "[CHR 0x0A] \<in> set (map rev white_space)"
    by (simp add: white_space_def)
  moreover have "?P [CHR 0x0A]"
    by simp
  ultimately have "find ?P (map rev white_space) = Some [CHR 0x0A]"
    by (intro find_only)
  then have "strip (map rev white_space) (CHR 0x0A # rev s) = strip (map rev white_space) (rev s)"
    by (subst strip.simps) simp
  then show ?thesis
    by (simp add: trim_def)
qed

lemma lines_text_snoc_empty: "ls \<noteq> [] \<Longrightarrow> lines_text (ls @ [[]]) = lines_text ls @ [CHR 0x0A]"
  unfolding lines_text_def
  by (induction "[CHR 0x0A]" ls rule: intercalate.induct) simp_all

lemma trim_lines_text_snoc_empty:
  "ls \<noteq> [] \<Longrightarrow> trim (lines_text (ls @ [[]])) = trim (lines_text ls)"
  by (simp add: lines_text_snoc_empty trim_append_newline)

lemma first_sentence_section_absent: "absent (firstSentence b) \<Longrightarrow> first_sentence_section b = []"
  by (cases "firstSentence b") (simp_all add: first_sentence_section_def)

lemma excerpts_section_empty: "absent_or_empty (excerpts b) \<Longrightarrow> excerpts_section b = Some []"
  by (cases "excerpts b") (simp_all add: excerpts_section_def)

lemma subjects_line_absent:
  "absent (subjects b) \<Longrightarrow> subjects_line b = Some ''SUBJECTS: No subjects available''"
  by (cases "subjects b") (simp_all add: subjects_line_def)

text \<open>What the prompt holds when \<open>createPrompt\<close> returns one.\<close>

lemma createPrompt_content:
  assumes "empty_optionals b"
    and "createPrompt b question = Some prompt"
  shows "\<exists>info subjects_text bio_text.
           bookInfo b = Some info
         \<and> subjects_line b = Some subjects_text
         \<and> (absent (subjects b) \<longrightarrow> subjects_text = ''SUBJECTS: No subjects available'')
         \<and> author_bio_section b = Some bio_text
         \<and> info = trim (lines_text
             [[],
              ''EXACT BOOK DATA FROM OPENLIBRARY API:'',
              [],
              ''BOOK ID: '' @ toString (book_id b),
              ''TITLE: '' @ dq @ toString (title b) @ dq,
              ''AUTHOR(S): '' @ listed ''Unknown Author'' (authors b),
              ''PUBLICATION YEAR: ''
                @ (if truthy (publishedDate b) then toString (publishedDate b) else ''Unknown''),
              ''DESCRIPTION: ''
                @ (if truthy (description b) then toString (description b)
                   else ''No description available''),
              ''CATEGORIES: '' @ listed ''General'' (categories b),
              subjects_text,
              ''PAGE COUNT: ''
                @ (if truthy (pageCount b) then toString (pageCount b) else ''Unknown''),
              [],
              bio_text,
              [],
              []])
         \<and> (bio_text = [] \<longrightarrow>
              info = trim (lines_text
                [[],
                 ''EXACT BOOK DATA FROM OPENLIBRARY API:'',
                 [],
                 ''BOOK ID: '' @ toString (book_id b),
                 ''TITLE: '' @ dq @ toString (title b) @ dq,
                 ''AUTHOR(S): '' @ listed ''Unknown Author'' (authors b),
                 ''PUBLICATION YEAR: ''
                   @ (if truthy (publishedDate b) then toString (publishedDate b) else ''Unknown''),
                 ''DESCRIPTION: ''
                   @ (if truthy (description b) then toString (description b)
                      else ''No description available''),
                 ''CATEGORIES: '' @ listed ''General'' (categories b),
                 subjects_text,
                 ''PAGE COUNT: ''
                   @ (if truthy (pageCount b) then toString (pageCount b) else ''Unknown'')]))
         \<and> prompt = trim (lines_text
             [[],
              ''You are an expert book analyst. I will provide you with exact book data from the OpenLibrary API, and you must answer the user's question using ONLY this specific book information.'',
              [],
              info,
              [],
              ''USER'S SPECIFIC QUESTION: '' @ dq @ question @ dq,
              [],
              ''CRITICAL INSTRUCTIONS:'',
              ''1. Use ONLY the book information provided above from OpenLibrary API'',
              ''2. Do not use any external knowledge or general information about similar books'',
              ''3. If the OpenLibrary data doesn't contain information to answer the question, clearly state this'',
              ''4. Be specific and reference the exact data points from the OpenLibrary response'',
              ''5. If describing the book, use the exact description, categories, and subjects provided'',
              ''6. If discussing authors, use only the author information from the API'',
              ''7. Structure your response to be helpful and informative based on the available data'',
              [],
              ''IMPORTANT: Your response must be based SOLELY on the OpenLibrary data provided above. Do not add any external knowledge.'',
              [],
              ''Now, please answer the user's question using only the provided OpenLibrary book data:'',
              ''        ''])"
proof -
  let ?head = "\<lambda>subjects_text.
    [[],
     ''EXACT BOOK DATA FROM OPENLIBRARY API:'',
     [],
     ''BOOK ID: '' @ toString (book_id b),
     ''TITLE: '' @ dq @ toString (title b) @ dq,
     ''AUTHOR(S): '' @ listed ''Unknown Author'' (authors b),
     ''PUBLICATION YEAR: ''
       @ (if truthy (publishedDate b) then toString (publishedDate b) else ''Unknown''),
     ''DESCRIPTION: ''
       @ (if truthy (description b) then toString (description b)
          else ''No description available''),
     ''CATEGORIES: '' @ listed ''General'' (categories b),
     subjects_text,
     ''PAGE COUNT: ''
       @ (if truthy (pageCount b) then toString (pageCount b) else ''Unknown'')]"
  from assms(1) have fs: "first_sentence_section b = []"
    and ex: "excerpts_section b = Some []"
    by (simp_all add: empty_optionals_def first_sentence_section_absent excerpts_section_empty)
  from assms(2) obtain info where info: "bookInfo b = Some info"
    and prompt: "trim (lines_text
             [[],
              ''You are an expert book analyst. I will provide you with exact book data from the OpenLibrary API, and you must answer the user's question using ONLY this specific book information.'',
              [],
              info,
              [],
              ''USER'S SPECIFIC QUESTION: '' @ dq @ question @ dq,
              [],
              ''CRITICAL INSTRUCTIONS:'',
              ''1. Use ONLY the book information provided above from OpenLibrary API'',
              ''2. Do not use any external knowledge or general information about similar books'',
              ''3. If the OpenLibrary data doesn't contain information to answer the question, clearly state this'',
              ''4. Be specific and reference the exact data points from the OpenLibrary response'',
              ''5. If describing the book, use the exact description, categories, and subjects provided'',
              ''6. If discussing authors, use only the author information from the API'',
              ''7. Structure your response to be helpful and informative based on the available data'',
              [],
              ''IMPORTANT: Your response must be based SOLELY on the OpenLibrary data provided above. Do not add any external knowledge.'',
              [],
              ''Now, please answer the user's question using only the provided OpenLibrary book data:'',
              ''        '']) = prompt"
    unfolding createPrompt_def
    by (elim bindE) (simp only: option.inject)
  from info obtain author_names category_names subjects_text bio_text excerpts_text
    where names: "joined_or (authors b) ''Unknown Author'' = Some author_names"
      and cats: "joined_or (categories b) ''General'' = Some category_names"
      and subj: "subjects_line b = Some subjects_text"
      and bio: "author_bio_section b = Some bio_text"
      and exc: "excerpts_section b = Some excerpts_text"
      and text_of: "trim (lines_text
             [[],
              ''EXACT BOOK DATA FROM OPENLIBRARY API:'',
              [],
              ''BOOK ID: '' @ toString (book_id b),
              ''TITLE: '' @ dq @ toString (title b) @ dq,
              ''AUTHOR(S): '' @ author_names,
              ''PUBLICATION YEAR: '' @ toString (or_js (publishedDate b) (Str ''Unknown'')),
              ''DESCRIPTION: '' @ toString (or_js (description b) (Str ''No description available'')),
              ''CATEGORIES: '' @ category_names,
              subjects_text,
              ''PAGE COUNT: '' @ toString (or_js (pageCount b) (Str ''Unknown'')),
              first_sentence_section b,
              bio_text,
              excerpts_text,
              []]) = info"
    unfolding bookInfo_def
    by (elim bindE) (simp only: option.inject)
  from exc ex have no_excerpts: "excerpts_text = []"
    by simp
  have or_text: "toString (or_js v (Str d)) = (if truthy v then toString v else d)" for v d
    by (simp add: or_js_def)
  have whole: "info = trim (lines_text (?head subjects_text @ [[], bio_text, [], []]))"
    using text_of joined_or_listed [OF names] joined_or_listed [OF cats]
    by (simp only: fs no_excerpts or_text append.simps)
  have short: "info = trim (lines_text (?head subjects_text))" if "bio_text = []"
  proof -
    have "trim (lines_text (?head subjects_text @ [[], [], [], []]))
          = trim (lines_text (((?head subjects_text @ [[]]) @ [[]]) @ [[]]))"
      using trim_lines_text_snoc_empty [of "((?head subjects_text @ [[]]) @ [[]]) @ [[]]"]
      by simp
    also have "\<dots> = trim (lines_text ((?head subjects_text @ [[]]) @ [[]]))"
      by (rule trim_lines_text_snoc_empty) simp
    also have "\<dots> = trim (lines_text (?head subjects_text @ [[]]))"
      by (rule trim_lines_text_snoc_empty) simp
    also have "\<dots> = trim (lines_text (?head subjects_text))"
      by (rule trim_lines_text_snoc_empty) simp
    finally show ?thesis
      using whole that by simp
  qed
  have placeholder: "absent (subjects b) \<longrightarrow> subjects_text = ''SUBJECTS: No subjects available''"
    using subj subjects_line_absent [of b] by auto
  show ?thesis
  proof (intro exI conjI)
    show "bookInfo b = Some info"
      by (rule info)
    show "subjects_line b = Some subjects_text"
      by (rule subj)
    show "absent (subjects b) \<longrightarrow> subjects_text = ''SUBJECTS: No subjects available''"
      by (rule placeholder)
    show "author_bio_section b = Some bio_text"
      by (rule bio)
    show "info = trim (lines_text
             [[],
              ''EXACT BOOK DATA FROM OPENLIBRARY API:'',
              [],
              ''BOOK ID: '' @ toString (book_id b),
              ''TITLE: '' @ dq @ toString (title b) @ dq,
              ''AUTHOR(S): '' @ listed ''Unknown Author'' (authors b),
              ''PUBLICATION YEAR: ''
                @ (if truthy (publishedDate b) then toString (publishedDate b) else ''Unknown''),
              ''DESCRIPTION: ''
                @ (if truthy (description b) then toString (description b)
                   else ''No description available''),
              ''CATEGORIES: '' @ listed ''General'' (categories b),
              subjects_text,
              ''PAGE COUNT: ''
                @ (if truthy (pageCount b) then toString (pageCount b) else ''Unknown''),
              [],
              bio_text,
              [],
              []])"
      using whole by (simp only: append.simps)
    show "bio_text = [] \<longrightarrow> info = trim (lines_text (?head subjects_text))"
      using short by blast
    show "prompt = trim (lines_text
             [[],
              ''You are an expert book analyst. I will provide you with exact book data from the OpenLibrary API, and you must answer the user's question using ONLY this specific book information.'',
              [],
              info,
              [],
              ''USER'S SPECIFIC QUESTION: '' @ dq @ question @ dq,
              [],
              ''CRITICAL INSTRUCTIONS:'',
              ''1. Use ONLY the book information provided above from OpenLibrary API'',
              ''2. Do not use any external knowledge or general information about similar books'',
              ''3. If the OpenLibrary data doesn't contain information to answer the question, clearly state this'',
              ''4. Be specific and reference the exact data points from the OpenLibrary response'',
              ''5. If describing the book, use the exact description, categories, and subjects provided'',
              ''6. If discussing authors, use only the author information from the API'',
              ''7. Structure your response to be helpful and informative based on the available data'',
              [],
              ''IMPORTANT: Your response must be based SOLELY on the OpenLibrary data provided above. Do not add any external knowledge.'',
              [],
              ''Now, please answer the user's question using only the provided OpenLibrary book data:'',
              ''        ''])"
      using prompt by (rule sym)
  qed
qed

text \<open>When \<open>createPrompt\<close> returns: the list fields that it joins hold lists.\<close>

lemma subjects_line_empty: "absent_or_empty (subjects b) \<Longrightarrow> \<exists>s. subjects_line b = Some s"
  by (cases "subjects b") (simp_all add: subjects_line_def sliced_joined_def)

lemma get_present: "v \<noteq> Undefined \<Longrightarrow> v \<noteq> Null \<Longrightarrow> \<exists>w. get v k = Some w"
  by (cases v) simp_all

lemma author_bio_section_typed:
  assumes "list_or_absent (authorDetails b)"
  shows "\<exists>s. author_bio_section b = Some s"
proof (cases "authorDetails b")
  case (Arr xs)
  obtain first where first: "index0 (Arr xs) = Some first"
    by (cases xs) simp_all
  show ?thesis
  proof (cases "first = Undefined \<or> first = Null")
    case True
    with Arr first show ?thesis
      by (auto simp: author_bio_section_def)
  next
    case False
    then obtain bio where "get first Bio = Some bio"
      using get_present [of first Bio] by blast
    with False Arr first show ?thesis
      by (auto simp: author_bio_section_def)
  qed
qed (use assms in \<open>simp_all add: author_bio_section_def\<close>)

lemma createPrompt_returns:
  assumes "empty_optionals b"
    and "list_or_absent (authors b)" and "list_or_absent (categories b)"
    and "list_or_absent (authorDetails b)"
  shows "\<exists>prompt. createPrompt b question = Some prompt"
proof -
  from assms(1) obtain subjects_text where subj: "subjects_line b = Some subjects_text"
    using subjects_line_empty [of b] by (auto simp: empty_optionals_def)
  from assms(1) have ex: "excerpts_section b = Some []"
    by (simp add: empty_optionals_def excerpts_section_empty)
  from assms(4) obtain bio_text where bio: "author_bio_section b = Some bio_text"
    using author_bio_section_typed by blast
  have "\<exists>info. bookInfo b = Some info"
    unfolding bookInfo_def
    by (simp add: joined_or_typed [OF assms(2)] joined_or_typed [OF assms(3)] subj ex bio)
  then obtain info where "bookInfo b = Some info" ..
  then show ?thesis
    unfolding createPrompt_def by simp
qed

text \<open>
  C7, as the program has it. Take a book with no subjects, no first sentence and no
  excerpts, whose numbers are integers that the runtime prints digit by digit, and any
  question. \<open>createPrompt\<close> returns a prompt when the authors, the
  categories and the author details of the book are lists or left out. Whenever it returns
  one, the prompt is the fixed instructions around the book information, which is what
  \<open>bookInfo\<close> holds, and the question. The book information is the eleven lines from the
  heading to the page count, an empty line where the first sentence would stand, the
  author biography section, and an empty line where the excerpts would stand, trimmed: no
  first-sentence and no excerpts section, with or without a value. When there is no
  biography section either, it ends with the page count. The subjects section is not left
  out: for a book without a subjects field it is the line
  "SUBJECTS: No subjects available".
\<close>

theorem prompt_of_empty_optionals:
  assumes "empty_optionals b"
    and "exact_numbers b"
  shows "(list_or_absent (authors b) \<and> list_or_absent (categories b)
          \<and> list_or_absent (authorDetails b) \<longrightarrow>
            (\<exists>prompt. createPrompt b question = Some prompt))
       \<and> (\<forall>prompt. createPrompt b question = Some prompt \<longrightarrow>
            (\<exists>info subjects_text bio_text.
                 bookInfo b = Some info
               \<and> subjects_line b = Some subjects_text
               \<and> (absent (subjects b) \<longrightarrow> subjects_text = ''SUBJECTS: No subjects available'')
               \<and> author_bio_section b = Some bio_text
               \<and> info = trim (lines_text
                   [[],
                    ''EXACT BOOK DATA FROM OPENLIBRARY API:'',
                    [],
                    ''BOOK ID: '' @ toString (book_id b),
                    ''TITLE: '' @ dq @ toString (title b) @ dq,
                    ''AUTHOR(S): '' @ listed ''Unknown Author'' (authors b),
                    ''PUBLICATION YEAR: ''
                      @ (if truthy (publishedDate b) then toString (publishedDate b) else ''Unknown''),
                    ''DESCRIPTION: ''
                      @ (if truthy (description b) then toString (description b)
                         else ''No description available''),
                    ''CATEGORIES: '' @ listed ''General'' (categories b),
                    subjects_text,
                    ''PAGE COUNT: ''
                      @ (if truthy (pageCount b) then toString (pageCount b) else ''Unknown''),
                    [],
                    bio_text,
                    [],
                    []])
               \<and> (bio_text = [] \<longrightarrow>
                    info = trim (lines_text
                      [[],
                       ''EXACT BOOK DATA FROM OPENLIBRARY API:'',
                       [],
                       ''BOOK ID: '' @ toString (book_id b),
                       ''TITLE: '' @ dq @ toString (title b) @ dq,
                       ''AUTHOR(S): '' @ listed ''Unknown Author'' (authors b),
                       ''PUBLICATION YEAR: ''
                         @ (if truthy (publishedDate b) then toString (publishedDate b) else ''Unknown''),
                       ''DESCRIPTION: ''
                         @ (if truthy (description b) then toString (description b)
                            else ''No description available''),
                       ''CATEGORIES: '' @ listed ''General'' (categories b),
                       subjects_text,
                       ''PAGE COUNT: ''
                         @ (if truthy (pageCount b) then toString (pageCount b) else ''Unknown'')]))
               \<and> prompt = trim (lines_text
                   [[],
                    ''You are an expert book analyst. I will provide you with exact book data from the OpenLibrary API, and you must answer the user's question using ONLY this specific book information.'',
                    [],
                    info,
                    [],
                    ''USER'S SPECIFIC QUESTION: '' @ dq @ question @ dq,
                    [],
                    ''CRITICAL INSTRUCTIONS:'',
                    ''1. Use ONLY the book information provided above from OpenLibrary API'',
                    ''2. Do not use any external knowledge or general information about similar books'',
                    ''3. If the OpenLibrary data doesn't contain information to answer the question, clearly state this'',
                    ''4. Be specific and reference the exact data points from the OpenLibrary response'',
                    ''5. If describing the book, use the exact description, categories, and subjects provided'',
                    ''6. If discussing authors, use only the author information from the API'',
                    ''7. Structure your response to be helpful and informative based on the available data'',
                    [],
                    ''IMPORTANT: Your response must be based SOLELY on the OpenLibrary data provided above. Do not add any external knowledge.'',
                    [],
                    ''Now, please answer the user's question using only the provided OpenLibrary book data:'',
                    ''        ''])))"
proof (intro conjI impI allI)
  assume "list_or_absent (authors b) \<and> list_or_absent (categories b)
          \<and> list_or_absent (authorDetails b)"
  with assms(1) show "\<exists>prompt. createPrompt b question = Some prompt"
    by (simp add: createPrompt_returns)
next
  fix prompt
  assume "createPrompt b question = Some prompt"
  with assms(1) show "\<exists>info subjects_text bio_text.
               bookInfo b = Some info
             \<and> subjects_line b = Some subjects_text
             \<and> (absent (subjects b) \<longrightarrow> subjects_text = ''SUBJECTS: No subjects available'')
             \<and> author_bio_section b = Some bio_text
             \<and> info = trim (lines_text
                 [[],
                  ''EXACT BOOK DATA FROM OPENLIBRARY API:'',
                  [],
                  ''BOOK ID: '' @ toString (book_id b),
                  ''TITLE: '' @ dq @ toString (title b) @ dq,
                  ''AUTHOR(S): '' @ listed ''Unknown Author'' (authors b),
                  ''PUBLICATION YEAR: ''
                    @ (if truthy (publishedDate b) then toString (publishedDate b) else ''Unknown''),
                  ''DESCRIPTION: ''
                    @ (if truthy (description b) then toString (description b)
                       else ''No description available''),
                  ''CATEGORIES: '' @ listed ''General'' (categories b),
                  subjects_text,
                  ''PAGE COUNT: ''
                    @ (if truthy (pageCount b) then toString (pageCount b) else ''Unknown''),
                  [],
                  bio_text,
                  [],
                  []])
             \<and> (bio_text = [] \<longrightarrow>
                  info = trim (lines_text
                    [[],
                     ''EXACT BOOK DATA FROM OPENLIBRARY API:'',
                     [],
                     ''BOOK ID: '' @ toString (book_id b),
                     ''TITLE: '' @ dq @ toString (title b) @ dq,
                     ''AUTHOR(S): '' @ listed ''Unknown Author'' (authors b),
                     ''PUBLICATION YEAR: ''
                       @ (if truthy (publishedDate b) then toString (publishedDate b) else ''Unknown''),
                     ''DESCRIPTION: ''
                       @ (if truthy (description b) then toString (description b)
                          else ''No description available''),
                     ''CATEGORIES: '' @ listed ''General'' (categories b),
                     subjects_text,
                     ''PAGE COUNT: ''
                       @ (if truthy (pageCount b) then toString (pageCount b) else ''Unknown'')]))
             \<and> prompt = trim (lines_text
                 [[],
                  ''You are an expert book analyst. I will provide you with exact book data from the OpenLibrary API, and you must answer the user's question using ONLY this specific book information.'',
                  [],
                  info,
                  [],
                  ''USER'S SPECIFIC QUESTION: '' @ dq @ question @ dq,
                  [],
                  ''CRITICAL INSTRUCTIONS:'',
                  ''1. Use ONLY the book information provided above from OpenLibrary API'',
                  ''2. Do not use any external knowledge or general information about similar books'',
                  ''3. If the OpenLibrary data doesn't contain information to answer the question, clearly state this'',
                  ''4. Be specific and reference the exact data points from the OpenLibrary response'',
                  ''5. If describing the book, use the exact description, categories, and subjects provided'',
                  ''6. If discussing authors, use only the author information from the API'',
                  ''7. Structure your response to be helpful and informative based on the available data'',
                  [],
                  ''IMPORTANT: Your response must be based SOLELY on the OpenLibrary data provided above. Do not add any external knowledge.'',
                  [],
                  ''Now, please answer the user's question using only the provided OpenLibrary book data:'',
                  ''        ''])"
    by (rule createPrompt_content)
qed

theorem prompt_of_empty_optionals_witness:
  "empty_optionals (allBooks ! 0)
   \<and> exact_numbers (allBooks ! 0)
   \<and> list_or_absent (authors (allBooks ! 0)) \<and> list_or_absent (categories (allBooks ! 0))
   \<and> list_or_absent (authorDetails (allBooks ! 0))
   \<and> createPrompt (allBooks ! 0) ''Who wrote it?''
       = Some (trim (lines_text
           [[],
            ''You are an expert book analyst. I will provide you with exact book data from the OpenLibrary API, and you must answer the user's question using ONLY this specific book information.'',
            [],
            trim (lines_text
              [[],
               ''EXACT BOOK DATA FROM OPENLIBRARY API:'',
               [],
               ''BOOK ID: OL82565W'',
               ''TITLE: '' @ dq @ ''Harry Potter and the Philosopher's Stone'' @ dq,
               ''AUTHOR(S): J.K. Rowling'',
               ''PUBLICATION YEAR: 1997'',
               ''DESCRIPTION: Harry Potter discovers he is a wizard and begins his education at Hogwarts School of Witchcraft and Wizardry.'',
               ''CATEGORIES: Fantasy, Fiction'',
               ''SUBJECTS: No subjects available'',
               ''PAGE COUNT: 223'']),
            [],
            ''USER'S SPECIFIC QUESTION: '' @ dq @ ''Who wrote it?'' @ dq,
            [],
            ''CRITICAL INSTRUCTIONS:'',
            ''1. Use ONLY the book information provided above from OpenLibrary API'',
            ''2. Do not use any external knowledge or general information about similar books'',
            ''3. If the OpenLibrary data doesn't contain information to answer the question, clearly state this'',
            ''4. Be specific and reference the exact data points from the OpenLibrary response'',
            ''5. If describing the book, use the exact description, categories, and subjects provided'',
            ''6. If discussing authors, use only the author information from the API'',
            ''7. Structure your response to be helpful and informative based on the available data'',
            [],
            ''IMPORTANT: Your response must be based SOLELY on the OpenLibrary data provided above. Do not add any external knowledge.'',
            [],
            ''Now, please answer the user's question using only the provided OpenLibrary book data:'',
            ''        '']))"
proof -
  have empty: "empty_optionals (allBooks ! 0)"
    by (simp add: allBooks_def empty_optionals_def)
  have exact: "exact_numbers (allBooks ! 0)"
    by (simp add: allBooks_def exact_numbers_def)
  note prompt_of_sample = prompt_of_empty_optionals [OF empty exact, of "''Who wrote it?''"]
  have typed: "list_or_absent (authors (allBooks ! 0)) \<and> list_or_absent (categories (allBooks ! 0))
               \<and> list_or_absent (authorDetails (allBooks ! 0))"
    by (simp add: allBooks_def)
  with prompt_of_sample
  obtain prompt where built: "createPrompt (allBooks ! 0) ''Who wrote it?'' = Some prompt"
    by blast
  have no_subjects: "absent (subjects (allBooks ! 0))"
    by (simp add: allBooks_def)
  have no_bio: "author_bio_section (allBooks ! 0) = Some []"
    by (simp add: allBooks_def author_bio_section_def)
  have fields: "toString (book_id (allBooks ! 0)) = ''OL82565W''"
    "toString (title (allBooks ! 0)) = ''Harry Potter and the Philosopher's Stone''"
    "listed dflt (authors (allBooks ! 0)) = ''J.K. Rowling''"
    "listed dflt (categories (allBooks ! 0)) = ''Fantasy, Fiction''"
    "publishedDate (allBooks ! 0) = Str ''1997''"
    "description (allBooks ! 0) = Str ''Harry Potter discovers he is a wizard and begins his education at Hogwarts School of Witchcraft and Wizardry.''"
    "pageCount (allBooks ! 0) = Num 223"
    for dflt
    by (simp_all add: allBooks_def)
  have pages: "show_int 223 = ''223''"
    by code_simp
  from prompt_of_sample [THEN conjunct2, rule_format, OF built] no_subjects no_bio
  obtain info where info: "info = trim (lines_text
              [[],
               ''EXACT BOOK DATA FROM OPENLIBRARY API:'',
               [],
               ''BOOK ID: OL82565W'',
               ''TITLE: '' @ dq @ ''Harry Potter and the Philosopher's Stone'' @ dq,
               ''AUTHOR(S): J.K. Rowling'',
               ''PUBLICATION YEAR: 1997'',
               ''DESCRIPTION: Harry Potter discovers he is a wizard and begins his education at Hogwarts School of Witchcraft and Wizardry.'',
               ''CATEGORIES: Fantasy, Fiction'',
               ''SUBJECTS: No subjects available'',
               ''PAGE COUNT: 223''])"
    and prompt: "prompt = trim (lines_text
           [[],
            ''You are an expert book analyst. I will provide you with exact book data from the OpenLibrary API, and you must answer the user's question using ONLY this specific book information.'',
            [],
            info,
            [],
            ''USER'S SPECIFIC QUESTION: '' @ dq @ ''Who wrote it?'' @ dq,
            [],
            ''CRITICAL INSTRUCTIONS:'',
            ''1. Use ONLY the book information provided above from OpenLibrary API'',
            ''2. Do not use any external knowledge or general information about similar books'',
            ''3. If the OpenLibrary data doesn't contain information to answer the question, clearly state this'',
            ''4. Be specific and reference the exact data points from the OpenLibrary response'',
            ''5. If describing the book, use the exact description, categories, and subjects provided'',
            ''6. If discussing authors, use only the author information from the API'',
            ''7. Structure your response to be helpful and informative based on the available data'',
            [],
            ''IMPORTANT: Your response must be based SOLELY on the OpenLibrary data provided above. Do not add any external knowledge.'',
            [],
            ''Now, please answer the user's question using only the provided OpenLibrary book data:'',
            ''        ''])"
    by (auto simp: fields pages)
  from built prompt info empty exact typed show ?thesis
    by simp
qed

text \<open>
  C7 as stated fails on the embedded sample, which has no subjects, no first sentence and
  no excerpts: the book information of its prompt holds a subjects line with a placeholder.
\<close>

theorem prompt_keeps_subjects_line:
  "empty_optionals (allBooks ! 0)
   \<and> subjects_line (allBooks ! 0) = Some ''SUBJECTS: No subjects available''
   \<and> bookInfo (allBooks ! 0) = Some (lines_text
       [''EXACT BOOK DATA FROM OPENLIBRARY API:'',
        [],
        ''BOOK ID: OL82565W'',
        ''TITLE: '' @ dq @ ''Harry Potter and the Philosopher's Stone'' @ dq,
        ''AUTHOR(S): J.K. Rowling'',
        ''PUBLICATION YEAR: 1997'',
        ''DESCRIPTION: Harry Potter discovers he is a wizard and begins his education at Hogwarts School of Witchcraft and Wizardry.'',
        ''CATEGORIES: Fantasy, Fiction'',
        ''SUBJECTS: No subjects available'',
        ''PAGE COUNT: 223''])"
proof -
  have empty: "empty_optionals (allBooks ! 0)"
    by (simp add: allBooks_def empty_optionals_def)
  have line: "subjects_line (allBooks ! 0) = Some ''SUBJECTS: No subjects available''"
    by (simp add: allBooks_def subjects_line_def)
  have info: "bookInfo (allBooks ! 0) = Some (lines_text
       [''EXACT BOOK DATA FROM OPENLIBRARY API:'',
        [],
        ''BOOK ID: OL82565W'',
        ''TITLE: '' @ dq @ ''Harry Potter and the Philosopher's Stone'' @ dq,
        ''AUTHOR(S): J.K. Rowling'',
        ''PUBLICATION YEAR: 1997'',
        ''DESCRIPTION: Harry Potter discovers he is a wizard and begins his education at Hogwarts School of Witchcraft and Wizardry.'',
        ''CATEGORIES: Fantasy, Fiction'',
        ''SUBJECTS: No subjects available'',
        ''PAGE COUNT: 223''])"
    by code_simp
  from empty line info show ?thesis by blast
qed

section \<open>BookVerseApp: favorites and loading\<close>

lemma read_favorites_Some: "read_favorites (Some ids) = ids"
  by (simp add: read_favorites_def)

lemma set_remove1_append: "x \<in> set xs \<Longrightarrow> set (remove1 x xs @ [x]) = set xs"
proof
  show "set (remove1 x xs @ [x]) \<subseteq> set xs" if "x \<in> set xs"
    using that set_remove1_subset [of x xs] by auto
  show "set xs \<subseteq> set (remove1 x xs @ [x])"
  proof
    fix y
    assume "y \<in> set xs"
    then show "y \<in> set (remove1 x xs @ [x])"
      by (cases "y = x") (simp_all add: in_set_remove1)
  qed
qed

lemma set_remove1_twice:
  "x \<in> set (remove1 x xs) \<Longrightarrow> set (remove1 x xs) = set xs"
proof
  show "set (remove1 x xs) \<subseteq> set xs"
    by (rule set_remove1_subset)
  show "set xs \<subseteq> set (remove1 x xs)" if "x \<in> set (remove1 x xs)"
  proof
    fix y
    assume "y \<in> set xs"
    with that show "y \<in> set (remove1 x xs)"
      by (cases "y = x") (simp_all add: in_set_remove1)
  qed
qed

text \<open>
  C8, as the program has it. \<open>toggleFavorite\<close> decides between adding and removing by the
  icon of the button, not by the stored list. When the two agree (the icon is the solid
  heart exactly when the identifier is stored), two clicks leave the stored set of
  identifiers as it was; from an outline heart the stored list itself is as it was.
\<close>

theorem double_toggle_restores_favorites:
  assumes "(''fas'' \<in> set (icon_classes btn)) = (bookId \<in> set (read_favorites store))"
  shows "set (read_favorites (snd (toggle_twice bookId btn store))) = set (read_favorites store)
         \<and> (''fas'' \<notin> set (icon_classes btn) \<longrightarrow>
              read_favorites (snd (toggle_twice bookId btn store)) = read_favorites store)"
proof (cases "''fas'' \<in> set (icon_classes btn)")
  case True
  with assms have stored: "bookId \<in> set (read_favorites store)"
    by simp
  show ?thesis
  proof (cases "bookId \<in> set (remove1 bookId (read_favorites store))")
    case again: True
    with True stored show ?thesis
      by (simp add: toggle_twice_def toggleFavorite_def read_favorites_Some set_remove1_twice)
  next
    case once: False
    with True stored show ?thesis
      using set_remove1_append [of bookId "read_favorites store"]
      by (simp add: toggle_twice_def toggleFavorite_def read_favorites_Some)
  qed
next
  case False
  with assms have "bookId \<notin> set (read_favorites store)"
    by simp
  with False show ?thesis
    by (simp add: toggle_twice_def toggleFavorite_def read_favorites_Some remove1_append)
qed

theorem double_toggle_witness:
  "(''fas'' \<in> set (icon_classes card_button)) = (''OL2W'' \<in> set (read_favorites (Some [''OL1W''])))
   \<and> toggleFavorite ''OL2W'' card_button (Some [''OL1W''])
       = (\<lparr> icon_classes = [''fas'', ''fa-heart''], label = '' Favorited'' \<rparr>, Some [''OL1W'', ''OL2W''])
   \<and> read_favorites (snd (toggle_twice ''OL2W'' card_button (Some [''OL1W'']))) = [''OL1W'']"
proof -
  have agree: "(''fas'' \<in> set (icon_classes card_button))
               = (''OL2W'' \<in> set (read_favorites (Some [''OL1W''])))"
    by (simp add: card_button_def read_favorites_def)
  have outline: "''fas'' \<notin> set (icon_classes card_button)"
    by (simp add: card_button_def)
  have once: "toggleFavorite ''OL2W'' card_button (Some [''OL1W''])
       = (\<lparr> icon_classes = [''fas'', ''fa-heart''], label = '' Favorited'' \<rparr>, Some [''OL1W'', ''OL2W''])"
    by (simp add: toggleFavorite_def card_button_def read_favorites_def)
  from double_toggle_restores_favorites [OF agree] outline
  have "read_favorites (snd (toggle_twice ''OL2W'' card_button (Some [''OL1W''])))
        = read_favorites (Some [''OL1W''])"
    by blast
  with agree once show ?thesis
    by (simp add: read_favorites_def)
qed

text \<open>
  C8 as stated fails for a stored favorite shown on a freshly rendered card: the first
  click finds the identifier stored and writes nothing, the second removes it.
\<close>

theorem double_toggle_loses_stored_favorite:
  "toggle_twice ''OL82565W'' card_button (Some [''OL82565W'']) = (card_button, Some [])"
  by (simp add: toggle_twice_def toggleFavorite_def card_button_def read_favorites_def)

lemma one_load_new_app: "one_load new_app"
  by (simp add: one_load_def new_app_def loadBooks_def)

lemma one_load_loadBooks: "one_load s \<Longrightarrow> one_load (loadBooks clear s)"
  by (auto simp: one_load_def loadBooks_def)

lemma one_load_fire: "one_load s \<Longrightarrow> one_load (fire e s)"
proof (cases e)
  case (Search_clicked input)
  assume "one_load s"
  then have "one_load (s\<lparr> currentSearchQuery := (if trim input \<noteq> [] then trim input else ''harry potter''),
                         currentPage := 0 \<rparr>)"
    by (simp add: one_load_def)
  with Search_clicked show ?thesis
    by (simp add: handleSearch_def one_load_loadBooks)
next
  case (Global_search_clicked input)
  assume "one_load s"
  then have "one_load (s\<lparr> currentSearchQuery := (if trim input \<noteq> [] then trim input else ''harry potter''),
                         currentPage := 0 \<rparr>)"
    by (simp add: one_load_def)
  with Global_search_clicked show ?thesis
    by (simp add: handleGlobalSearch_def one_load_loadBooks)
next
  case Load_more_clicked
  assume "one_load s"
  then have "one_load (s\<lparr> currentPage := currentPage s + 1 \<rparr>)"
    by (simp add: one_load_def)
  with Load_more_clicked \<open>one_load s\<close> show ?thesis
    by (simp add: loadMoreBooks_def one_load_loadBooks)
next
  case (View_book_clicked bookId)
  assume "one_load s"
  with View_book_clicked show ?thesis
    by (simp add: one_load_def openBookModal_def)
next
  case Modal_closed
  assume "one_load s"
  with Modal_closed show ?thesis
    by (simp add: one_load_def closeModal_def)
next
  case (Search_settled k)
  assume "one_load s"
  with Search_settled show ?thesis
    by (auto simp: one_load_def loadBooks_resume_def)
next
  case (Details_settled k result)
  assume "one_load s"
  with Details_settled show ?thesis
    by (simp add: one_load_def openBookModal_resume_def)
qed

lemma one_load_run: "one_load (run es)"
proof (induction es rule: rev_induct)
  case Nil
  then show ?case by (simp add: run_def one_load_new_app)
next
  case (snoc e es)
  then show ?case by (simp add: run_def one_load_fire)
qed

lemma loading_blocks_search: "isLoading s \<Longrightarrow> \<not> starts_search e s"
  by (cases e)
     (auto simp: starts_search_def handleSearch_def handleGlobalSearch_def loadMoreBooks_def
        loadBooks_def openBookModal_def closeModal_def loadBooks_resume_def
        openBookModal_resume_def)

text \<open>
  C9, as the program has it. In every state that the controller reaches, at most one
  catalog search is awaited, the loading flag is set exactly while one is, and while the
  flag is set no event starts a second search. The flag guards \<open>loadBooks\<close> and
  \<open>loadMoreBooks\<close>; \<open>openBookModal\<close> neither reads nor writes it.
\<close>

theorem at_most_one_search_in_flight:
  "length (searches_in_flight (run es)) \<le> 1
   \<and> (isLoading (run es) \<longleftrightarrow> searches_in_flight (run es) \<noteq> [])
   \<and> (isLoading (run es) \<longrightarrow> \<not> starts_search e (run es))"
  using one_load_run [of es] loading_blocks_search [of "run es" e]
  by (simp add: one_load_def)

theorem at_most_one_search_witness:
  "isLoading (run [])
   \<and> searches_in_flight (run []) = [(''harry potter'', 0, True)]
   \<and> \<not> starts_search (Search_clicked ''dune'') (run [])
   \<and> searches_in_flight (fire (Search_clicked ''dune'') (run [])) = [(''harry potter'', 0, True)]"
proof -
  have loading: "isLoading (run [])"
    by (simp add: run_def new_app_def loadBooks_def)
  have first: "searches_in_flight (run []) = [(''harry potter'', 0, True)]"
    by (simp add: run_def new_app_def loadBooks_def)
  have dropped: "searches_in_flight (fire (Search_clicked ''dune'') (run []))
                 = [(''harry potter'', 0, True)]"
    by (simp add: run_def new_app_def loadBooks_def handleSearch_def)
  from at_most_one_search_in_flight [of "[]" "Search_clicked ''dune''"] loading first dropped
  show ?thesis by simp
qed

text \<open>
  C9 as stated fails for the detail fetch: while the first search is awaited and the flag
  is set, a click on "View Details" starts \<open>getBookDetails\<close>, and a second click starts
  another one beside it.
\<close>

theorem details_start_while_loading:
  "isLoading (run [])
   \<and> starts_details (View_book_clicked ''OL82565W'') (run [])
   \<and> isLoading (run [View_book_clicked ''OL82565W''])
   \<and> starts_details (View_book_clicked ''OL45804W'') (run [View_book_clicked ''OL82565W''])
   \<and> details_in_flight (run [View_book_clicked ''OL82565W'', View_book_clicked ''OL45804W''])
       = [''OL82565W'', ''OL45804W'']"
  by (simp add: run_def new_app_def loadBooks_def openBookModal_def starts_details_def)

end
